theory Spec2Isabelle
  imports Main "HOL-Library.Word"
begin

section \<open>Scope of the embedding\<close>

text \<open>
  The sources hold several revisions of the same two Go packages. The event
  listener (package \<open>usecase\<close>) appears four times: \<open>src/unnamed/part_004\<close>
  (one POST, no retry), \<open>src/unnamed/part_005\<close> and \<open>src/main.go\<close> lines 153-412
  (three POST attempts, no reconnect loop), and \<open>src/Dockerfile\<close> lines 35-280 (three
  POST attempts and the reconnect loop \<open>startRealtimeListener\<close>). The contract gateway
  (package \<open>contract\<close>) appears three times: \<open>src/gateway/contract/gateway.go\<close> and
  \<open>src/unnamed/part_005\<close> lines 223-821 (no polling, lookback 1000 blocks, no address
  check in \<open>parseLog\<close>), and \<open>src/main.go\<close> lines 413-1000 (polling fallback, lookback
  10000 blocks, address check in \<open>parseLog\<close>).

  The definitions below embed the most capable revision of each package, the one that
  contains every mechanism the specification talks about: the listener of
  \<open>src/Dockerfile\<close> and the gateway of \<open>src/main.go\<close>. Functions that are the same in
  every revision (\<open>GetItem\<close>, \<open>VerifyTransaction\<close>, the five \<open>parseItem...\<close> functions,
  \<open>handleEvent\<close>) are embedded once. The payment gateway is \<open>src/unnamed/part_002\<close>.
  Where an earlier revision behaves differently on a property proved here, a lemma about
  that revision records the difference.
\<close>

section \<open>Data model\<close>

type_synonym hash = "256 word"
type_synonym address = "160 word"
type_synonym uint64 = "64 word"
type_synonym byte = "8 word"

text \<open>\<open>types.Log\<close> of go-ethereum, the fields the gateway reads.\<close>

record Log =
  Address :: address
  Topics :: "hash list"
  Data :: "byte list"
  BlockNumber :: uint64
  LogTxHash :: hash

text \<open>\<open>model.EventType\<close> is a Go string type with five named constants.\<close>

type_synonym EventType = string

definition EventItemListed :: EventType where
  "EventItemListed = ''ItemListed''"

definition EventItemPurchased :: EventType where
  "EventItemPurchased = ''ItemPurchased''"

definition EventItemUpdated :: EventType where
  "EventItemUpdated = ''ItemUpdated''"

definition EventItemCancelled :: EventType where
  "EventItemCancelled = ''ItemCancelled''"

definition EventReceiptConfirmed :: EventType where
  "EventReceiptConfirmed = ''ReceiptConfirmed''"

text \<open>
  \<open>model.ContractEvent\<close> (src/model/model.go lines 48-65). \<open>Price\<close> is a \<open>*big.Int\<close>:
  \<open>None\<close> is the nil pointer, the value the field has until a parser assigns it.
\<close>

record ContractEvent =
  Type :: EventType
  TxHash :: string
  BlockNo :: uint64
  ItemId :: uint64
  TokenId :: uint64
  Title :: string
  Price :: "int option"
  Explanation :: string
  ImageUrl :: string
  Uid :: string
  Category :: string
  Seller :: string
  Buyer :: string
  BuyerUid :: string
  CreatedAt :: uint64
  UpdatedAt :: uint64

text \<open>The Go zero value of the struct.\<close>

definition zero_event :: ContractEvent where
  "zero_event = \<lparr> Type = [], TxHash = [], BlockNo = 0, ItemId = 0, TokenId = 0,
     Title = [], Price = None, Explanation = [], ImageUrl = [], Uid = [], Category = [],
     Seller = [], Buyer = [], BuyerUid = [], CreatedAt = 0, UpdatedAt = 0 \<rparr>"

text \<open>Values that go-ethereum's ABI decoder puts into the map of \<open>UnpackIntoMap\<close>.\<close>

datatype abi_value = AbiUint int | AbiString string | AbiBool bool | AbiAddress address

text \<open>
  \<open>FrimaContractGateway\<close>: the configured contract address and the parsed ABI. The ABI
  table and the hex renderings are go-ethereum's, outside the repository, so they are
  fields here: \<open>eventID name\<close> is \<open>contractABI.Events[name].ID\<close>, \<open>unpackIntoMap\<close> is
  \<open>contractABI.UnpackIntoMap\<close> with \<open>None\<close> for a returned error, \<open>hashHex\<close> is
  \<open>common.Hash.Hex\<close> and \<open>addressHex\<close> is \<open>common.Address.Hex\<close>.
\<close>

record FrimaContractGateway =
  contractAddress :: address
  eventID :: "string \<Rightarrow> hash"
  unpackIntoMap :: "string \<Rightarrow> byte list \<Rightarrow> (string \<rightharpoonup> abi_value) option"
  hashHex :: "hash \<Rightarrow> string"
  addressHex :: "address \<Rightarrow> string"

section \<open>Event decoder\<close>

text \<open>The type assertions \<open>data[k].(string)\<close> and \<open>data[k].(*big.Int)\<close>.\<close>

definition as_string :: "(string \<rightharpoonup> abi_value) \<Rightarrow> string \<Rightarrow> string option" where
  "as_string d k = (case d k of Some (AbiString s) \<Rightarrow> Some s | _ \<Rightarrow> None)"

definition as_bigint :: "(string \<rightharpoonup> abi_value) \<Rightarrow> string \<Rightarrow> int option" where
  "as_bigint d k = (case d k of Some (AbiUint n) \<Rightarrow> Some n | _ \<Rightarrow> None)"

text \<open>\<open>new(big.Int).SetBytes(topic.Bytes()).Uint64()\<close>: the low 64 bits of the topic.\<close>

definition topic_uint64 :: "hash \<Rightarrow> uint64" where
  "topic_uint64 t = ucast t"

text \<open>\<open>common.HexToAddress(topic.Hex())\<close>: the last 20 bytes of the topic.\<close>

definition topic_address :: "hash \<Rightarrow> address" where
  "topic_address t = ucast t"

text \<open>\<open>(*big.Int).Uint64()\<close>: the low 64 bits.\<close>

definition big_uint64 :: "int \<Rightarrow> uint64" where
  "big_uint64 n = word_of_int n"

text \<open>The event every parser starts from.\<close>

definition new_event :: "FrimaContractGateway \<Rightarrow> EventType \<Rightarrow> Log \<Rightarrow> ContractEvent" where
  "new_event g ty vLog =
     zero_event \<lparr> Type := ty, TxHash := hashHex g (LogTxHash vLog), BlockNo := BlockNumber vLog \<rparr>"

text \<open>src/main.go lines 789-836.\<close>

definition parseItemListed :: "FrimaContractGateway \<Rightarrow> Log \<Rightarrow> ContractEvent" where
  "parseItemListed g vLog =
    (let event = new_event g EventItemListed vLog;
         event = (if length (Topics vLog) \<ge> 4
                  then event \<lparr> ItemId := topic_uint64 (Topics vLog ! 1),
                               TokenId := topic_uint64 (Topics vLog ! 2),
                               Seller := addressHex g (topic_address (Topics vLog ! 3)) \<rparr>
                  else event)
     in case unpackIntoMap g ''ItemListed'' (Data vLog) of
          None \<Rightarrow> event
        | Some d \<Rightarrow>
           (let event = (case as_string d ''title'' of Some v \<Rightarrow> event \<lparr> Title := v \<rparr> | None \<Rightarrow> event);
                event = (case as_bigint d ''price'' of Some v \<Rightarrow> event \<lparr> Price := Some v \<rparr> | None \<Rightarrow> event);
                event = (case as_string d ''explanation'' of Some v \<Rightarrow> event \<lparr> Explanation := v \<rparr> | None \<Rightarrow> event);
                event = (case as_string d ''imageUrl'' of Some v \<Rightarrow> event \<lparr> ImageUrl := v \<rparr> | None \<Rightarrow> event);
                event = (case as_string d ''uid'' of Some v \<Rightarrow> event \<lparr> Uid := v \<rparr> | None \<Rightarrow> event);
                event = (case as_bigint d ''createdAt'' of Some v \<Rightarrow> event \<lparr> CreatedAt := big_uint64 v \<rparr> | None \<Rightarrow> event);
                event = (case as_string d ''category'' of Some v \<Rightarrow> event \<lparr> Category := v \<rparr> | None \<Rightarrow> event)
            in event))"

text \<open>src/main.go lines 838-867.\<close>

definition parseItemPurchased :: "FrimaContractGateway \<Rightarrow> Log \<Rightarrow> ContractEvent" where
  "parseItemPurchased g vLog =
    (let event = new_event g EventItemPurchased vLog;
         event = (if length (Topics vLog) \<ge> 3
                  then event \<lparr> ItemId := topic_uint64 (Topics vLog ! 1),
                               Buyer := addressHex g (topic_address (Topics vLog ! 2)) \<rparr>
                  else event)
     in case unpackIntoMap g ''ItemPurchased'' (Data vLog) of
          None \<Rightarrow> event
        | Some d \<Rightarrow>
           (let event = (case as_bigint d ''price'' of Some v \<Rightarrow> event \<lparr> Price := Some v \<rparr> | None \<Rightarrow> event);
                event = (case as_bigint d ''tokenId'' of Some v \<Rightarrow> event \<lparr> TokenId := big_uint64 v \<rparr> | None \<Rightarrow> event)
            in event))"

text \<open>src/main.go lines 869-909.\<close>

definition parseItemUpdated :: "FrimaContractGateway \<Rightarrow> Log \<Rightarrow> ContractEvent" where
  "parseItemUpdated g vLog =
    (let event = new_event g EventItemUpdated vLog;
         event = (if length (Topics vLog) \<ge> 2
                  then event \<lparr> ItemId := topic_uint64 (Topics vLog ! 1) \<rparr>
                  else event)
     in case unpackIntoMap g ''ItemUpdated'' (Data vLog) of
          None \<Rightarrow> event
        | Some d \<Rightarrow>
           (let event = (case as_string d ''title'' of Some v \<Rightarrow> event \<lparr> Title := v \<rparr> | None \<Rightarrow> event);
                event = (case as_bigint d ''price'' of Some v \<Rightarrow> event \<lparr> Price := Some v \<rparr> | None \<Rightarrow> event);
                event = (case as_string d ''explanation'' of Some v \<Rightarrow> event \<lparr> Explanation := v \<rparr> | None \<Rightarrow> event);
                event = (case as_string d ''imageUrl'' of Some v \<Rightarrow> event \<lparr> ImageUrl := v \<rparr> | None \<Rightarrow> event);
                event = (case as_string d ''category'' of Some v \<Rightarrow> event \<lparr> Category := v \<rparr> | None \<Rightarrow> event);
                event = (case as_bigint d ''updatedAt'' of Some v \<Rightarrow> event \<lparr> UpdatedAt := big_uint64 v \<rparr> | None \<Rightarrow> event)
            in event))"

text \<open>src/main.go lines 911-925.\<close>

definition parseItemCancelled :: "FrimaContractGateway \<Rightarrow> Log \<Rightarrow> ContractEvent" where
  "parseItemCancelled g vLog =
    (let event = new_event g EventItemCancelled vLog
     in if length (Topics vLog) \<ge> 3
        then event \<lparr> ItemId := topic_uint64 (Topics vLog ! 1),
                     Seller := addressHex g (topic_address (Topics vLog ! 2)) \<rparr>
        else event)"

text \<open>src/main.go lines 927-954.\<close>

definition parseReceiptConfirmed :: "FrimaContractGateway \<Rightarrow> Log \<Rightarrow> ContractEvent" where
  "parseReceiptConfirmed g vLog =
    (let event = new_event g EventReceiptConfirmed vLog;
         event = (if length (Topics vLog) \<ge> 4
                  then event \<lparr> ItemId := topic_uint64 (Topics vLog ! 1),
                               Buyer := addressHex g (topic_address (Topics vLog ! 2)),
                               Seller := addressHex g (topic_address (Topics vLog ! 3)) \<rparr>
                  else event)
     in case unpackIntoMap g ''ReceiptConfirmed'' (Data vLog) of
          None \<Rightarrow> event
        | Some d \<Rightarrow>
           (case as_bigint d ''price'' of Some v \<Rightarrow> event \<lparr> Price := Some v \<rparr> | None \<Rightarrow> event))"

text \<open>
  The \<open>switch eventSig\<close> shared by every revision of \<open>parseLog\<close>. The Go code compares
  the hex renderings of the hashes, which are equal exactly when the hashes are. \<open>None\<close> is
  the nil pointer.
\<close>

definition dispatch :: "FrimaContractGateway \<Rightarrow> Log \<Rightarrow> ContractEvent option" where
  "dispatch g vLog =
    (let eventSig = hd (Topics vLog) in
     if eventSig = eventID g ''ItemListed'' then Some (parseItemListed g vLog)
     else if eventSig = eventID g ''ItemPurchased'' then Some (parseItemPurchased g vLog)
     else if eventSig = eventID g ''ItemUpdated'' then Some (parseItemUpdated g vLog)
     else if eventSig = eventID g ''ItemCancelled'' then Some (parseItemCancelled g vLog)
     else if eventSig = eventID g ''ReceiptConfirmed'' then Some (parseReceiptConfirmed g vLog)
     else None)"

text \<open>\<open>parseLog\<close>, src/main.go lines 751-787.\<close>

definition parseLog :: "FrimaContractGateway \<Rightarrow> Log \<Rightarrow> ContractEvent option" where
  "parseLog g vLog =
    (if length (Topics vLog) = 0 then None
     else if Address vLog \<noteq> contractAddress g then None
     else dispatch g vLog)"

text \<open>
  \<open>parseLog\<close> of the earlier revision, src/gateway/contract/gateway.go lines 243-283
  (and src/unnamed/part_005 lines 559-606): the same without the address comparison.
\<close>

definition parseLog_gateway_go :: "FrimaContractGateway \<Rightarrow> Log \<Rightarrow> ContractEvent option" where
  "parseLog_gateway_go g vLog =
    (if length (Topics vLog) = 0 then None
     else dispatch g vLog)"

text \<open>
  The event kind a topic 0 selects (the first matching case of the switch) and the number
  of topics the parser of that kind asks for before it reads the indexed fields.
\<close>

definition sig_kind :: "FrimaContractGateway \<Rightarrow> hash \<Rightarrow> EventType option" where
  "sig_kind g s =
    (if s = eventID g ''ItemListed'' then Some EventItemListed
     else if s = eventID g ''ItemPurchased'' then Some EventItemPurchased
     else if s = eventID g ''ItemUpdated'' then Some EventItemUpdated
     else if s = eventID g ''ItemCancelled'' then Some EventItemCancelled
     else if s = eventID g ''ReceiptConfirmed'' then Some EventReceiptConfirmed
     else None)"

definition required_topics :: "EventType \<Rightarrow> nat" where
  "required_topics k =
    (if k = EventItemListed then 4
     else if k = EventItemPurchased then 3
     else if k = EventItemUpdated then 2
     else if k = EventItemCancelled then 3
     else if k = EventReceiptConfirmed then 4
     else 0)"

text \<open>
  A concrete gateway for closed statements: contract address \<open>0xC0FFEE\<close>, five distinct
  event identifiers, an ABI decoder that rejects every payload that is not 32 bytes long
  and reads a 32-byte payload as the single field \<open>price\<close>.
\<close>

definition demo_eventID :: "string \<Rightarrow> hash" where
  "demo_eventID name =
    (if name = ''ItemListed'' then 101
     else if name = ''ItemPurchased'' then 102
     else if name = ''ItemUpdated'' then 103
     else if name = ''ItemCancelled'' then 104
     else if name = ''ReceiptConfirmed'' then 105
     else 0)"

definition demo_unpack :: "string \<Rightarrow> byte list \<Rightarrow> (string \<rightharpoonup> abi_value) option" where
  "demo_unpack name bs =
    (if length bs = 32 then Some [''price'' \<mapsto> AbiUint (int (foldl (\<lambda>a b. 256 * a + unat b) 0 bs))]
     else None)"

definition demo_gateway :: FrimaContractGateway where
  "demo_gateway = \<lparr> contractAddress = 0xC0FFEE, eventID = demo_eventID,
     unpackIntoMap = demo_unpack, hashHex = (\<lambda>h. ''0x''), addressHex = (\<lambda>a. ''0x'') \<rparr>"

text \<open>
  What an event of kind \<open>k\<close> looks like when the parser found too few topics: kind,
  transaction hash and block number are set, the fields read from the topics keep their
  zero values.
\<close>

definition short_event :: "FrimaContractGateway \<Rightarrow> EventType \<Rightarrow> Log \<Rightarrow> ContractEvent \<Rightarrow> bool" where
  "short_event g k vLog ev \<longleftrightarrow>
     Type ev = k \<and> TxHash ev = hashHex g (LogTxHash vLog) \<and> BlockNo ev = BlockNumber vLog \<and>
     ItemId ev = 0 \<and> Seller ev = [] \<and> Buyer ev = []"

section \<open>Node client\<close>

text \<open>
  Go errors are values: a result is \<open>Inl message\<close> or \<open>Inr value\<close>. The messages are
  the ones the repository creates with \<open>errors.New\<close>; an error of the node is whatever
  string the client returned.
\<close>

type_synonym error = string

text \<open>\<open>ethereum.FilterQuery\<close>, the fields the gateway sets.\<close>

record FilterQuery =
  Addresses :: "address list"
  FromBlock :: uint64
  ToBlock :: uint64

text \<open>\<open>types.Transaction\<close> and \<open>types.Receipt\<close>, the parts that are read.\<close>

record Transaction =
  Value :: int
  To :: "address option"

record Receipt =
  ReceiptStatus :: uint64
  ReceiptBlockNumber :: int
  ReceiptGasUsed :: uint64

definition ReceiptStatusSuccessful :: uint64 where
  "ReceiptStatusSuccessful = 1"

text \<open>
  The answers of \<open>ethclient.Client\<close> during one call of a gateway function:
  \<open>HeaderByNumber(ctx, nil)\<close> gives the number of the latest header.
\<close>

record Client =
  HeaderByNumber :: "error + int"
  FilterLogs :: "FilterQuery \<Rightarrow> error + Log list"
  CallContract :: "address \<Rightarrow> byte list \<Rightarrow> error + byte list"
  TransactionByHash :: "hash \<Rightarrow> error + (Transaction \<times> bool)"
  TransactionReceipt :: "hash \<Rightarrow> error + Receipt"

text \<open>The requests a gateway function sends to the node, in order.\<close>

datatype rpc =
    RpcHeaderByNumber
  | RpcFilterLogs FilterQuery
  | RpcCallContract address "byte list"
  | RpcTransactionByHash hash
  | RpcTransactionReceipt hash

text \<open>\<open>common.HexToHash\<close> and \<open>common.HexToAddress\<close> of go-ethereum.\<close>

record Common =
  HexToHash :: "string \<Rightarrow> hash"
  HexToAddress :: "string \<Rightarrow> address"

section \<open>GetItem\<close>

text \<open>\<open>model.ContractItem\<close>, src/model/model.go lines 68-84.\<close>

record ContractItem =
  item_ItemId :: uint64
  item_TokenId :: uint64
  item_Title :: string
  item_Price :: int
  item_Explanation :: string
  item_ImageUrl :: string
  item_Uid :: string
  item_CreatedAt :: uint64
  item_UpdatedAt :: uint64
  item_IsPurchased :: bool
  item_Category :: string
  item_Seller :: string
  item_Buyer :: string
  item_BuyerUid :: string
  item_Status :: byte

text \<open>The anonymous struct \<open>getItem\<close> is unpacked into (src/main.go lines 515-530).\<close>

record ItemStruct =
  raw_ItemId :: int
  raw_TokenId :: int
  raw_Title :: string
  raw_Price :: int
  raw_Explanation :: string
  raw_ImageUrl :: string
  raw_Uid :: string
  raw_CreatedAt :: int
  raw_UpdatedAt :: int
  raw_IsPurchased :: bool
  raw_Category :: string
  raw_Seller :: address
  raw_Buyer :: address
  raw_Status :: byte

text \<open>
  \<open>contractABI.Pack\<close> and \<open>contractABI.UnpackIntoInterface\<close> for the method \<open>getItem\<close>
  are go-ethereum's: parameters of the model.
\<close>

record ItemABI =
  Pack :: "string \<Rightarrow> int list \<Rightarrow> error + byte list"
  UnpackItem :: "string \<Rightarrow> byte list \<Rightarrow> error + ItemStruct"

text \<open>\<open>big.NewInt(int64(itemId))\<close>: the 64 bits of \<open>itemId\<close> read as two's complement.\<close>

definition getItem_argument :: "uint64 \<Rightarrow> int" where
  "getItem_argument itemId = sint itemId"

text \<open>\<open>GetItem\<close>, src/main.go lines 498-553 (src/gateway/contract/gateway.go lines 79-134).\<close>

definition GetItem ::
  "FrimaContractGateway \<Rightarrow> ItemABI \<Rightarrow> Client \<Rightarrow> uint64 \<Rightarrow> rpc list \<times> (error + ContractItem)" where
  "GetItem g abi c itemId =
    (case Pack abi ''getItem'' [getItem_argument itemId] of
       Inl err \<Rightarrow> ([], Inl err)
     | Inr data \<Rightarrow>
        (case CallContract c (contractAddress g) data of
           Inl err \<Rightarrow> ([RpcCallContract (contractAddress g) data], Inl err)
         | Inr result \<Rightarrow>
            (case UnpackItem abi ''getItem'' result of
               Inl err \<Rightarrow> ([RpcCallContract (contractAddress g) data], Inl err)
             | Inr item \<Rightarrow>
                ([RpcCallContract (contractAddress g) data],
                 Inr \<lparr> item_ItemId = big_uint64 (raw_ItemId item),
                       item_TokenId = big_uint64 (raw_TokenId item),
                       item_Title = raw_Title item,
                       item_Price = raw_Price item,
                       item_Explanation = raw_Explanation item,
                       item_ImageUrl = raw_ImageUrl item,
                       item_Uid = raw_Uid item,
                       item_CreatedAt = big_uint64 (raw_CreatedAt item),
                       item_UpdatedAt = big_uint64 (raw_UpdatedAt item),
                       item_IsPurchased = raw_IsPurchased item,
                       item_Category = raw_Category item,
                       item_Seller = addressHex g (raw_Seller item),
                       item_Buyer = addressHex g (raw_Buyer item),
                       item_BuyerUid = [],
                       item_Status = raw_Status item \<rparr>))))"

section \<open>Backfill scanner\<close>

text \<open>
  The start of the scanned range (src/main.go lines 708-714 with the literal 10000,
  src/gateway/contract/gateway.go lines 197-202 with the literal 1000). The subtraction
  is on \<open>uint64\<close>; the guard keeps it from wrapping.
\<close>

definition actualFromBlock :: "uint64 \<Rightarrow> uint64 \<Rightarrow> uint64 \<Rightarrow> uint64" where
  "actualFromBlock window currentBlock fromBlock =
    (if fromBlock = 0
     then (if currentBlock > window then currentBlock - window else fromBlock)
     else fromBlock)"

definition actualToBlock :: "uint64 \<Rightarrow> uint64 option \<Rightarrow> uint64" where
  "actualToBlock currentBlock toBlock =
    (case toBlock of None \<Rightarrow> currentBlock | Some t \<Rightarrow> t)"

text \<open>
  The loop over the fetched logs (src/main.go lines 735-744): logs of another address
  are skipped, logs \<open>parseLog\<close> returns nil for are skipped, the rest goes to the channel
  in order.
\<close>

definition scan_logs :: "FrimaContractGateway \<Rightarrow> Log list \<Rightarrow> ContractEvent list" where
  "scan_logs g logs =
     List.map_filter (parseLog g) (filter (\<lambda>vLog. Address vLog = contractAddress g) logs)"

text \<open>
  \<open>ScanPastEvents\<close>, src/main.go lines 695-748: the requests sent and the events written to
  the channel before it is closed. \<open>toBlock\<close> is a \<open>*uint64\<close>, \<open>None\<close> is nil.
\<close>

definition ScanPastEvents ::
  "FrimaContractGateway \<Rightarrow> Client \<Rightarrow> uint64 \<Rightarrow> uint64 option \<Rightarrow> rpc list \<times> ContractEvent list" where
  "ScanPastEvents g c fromBlock toBlock =
    (case HeaderByNumber c of
       Inl err \<Rightarrow> ([RpcHeaderByNumber], [])
     | Inr number \<Rightarrow>
        (let currentBlock = big_uint64 number;
             query = \<lparr> Addresses = [contractAddress g],
                       FromBlock = actualFromBlock 10000 currentBlock fromBlock,
                       ToBlock = actualToBlock currentBlock toBlock \<rparr>
         in case FilterLogs c query of
              Inl err \<Rightarrow> ([RpcHeaderByNumber, RpcFilterLogs query], [])
            | Inr logs \<Rightarrow> ([RpcHeaderByNumber, RpcFilterLogs query], scan_logs g logs)))"

text \<open>The earlier revision, src/gateway/contract/gateway.go lines 181-240.\<close>

definition ScanPastEvents_gateway_go ::
  "FrimaContractGateway \<Rightarrow> Client \<Rightarrow> uint64 \<Rightarrow> uint64 option \<Rightarrow> rpc list \<times> ContractEvent list" where
  "ScanPastEvents_gateway_go g c fromBlock toBlock =
    (case HeaderByNumber c of
       Inl err \<Rightarrow> ([RpcHeaderByNumber], [])
     | Inr number \<Rightarrow>
        (let currentBlock = big_uint64 number;
             query = \<lparr> Addresses = [contractAddress g],
                       FromBlock = actualFromBlock 1000 currentBlock fromBlock,
                       ToBlock = actualToBlock currentBlock toBlock \<rparr>
         in case FilterLogs c query of
              Inl err \<Rightarrow> ([RpcHeaderByNumber, RpcFilterLogs query], [])
            | Inr logs \<Rightarrow>
                ([RpcHeaderByNumber, RpcFilterLogs query],
                 List.map_filter (parseLog_gateway_go g) logs)))"

section \<open>Transaction verifier\<close>

text \<open>\<open>model.TxVerification\<close>, src/model/model.go lines 87-94.\<close>

record TxVerification =
  ver_TxHash :: string
  Status :: string
  ver_BlockNumber :: uint64
  GasUsed :: uint64
  Success :: bool
  IsContractCall :: bool

text \<open>
  \<open>VerifyTransaction\<close>, src/main.go lines 957-1000 (the same text as
  src/gateway/contract/gateway.go lines 455-498).
\<close>

definition VerifyTransaction ::
  "FrimaContractGateway \<Rightarrow> Common \<Rightarrow> Client \<Rightarrow> string \<Rightarrow> rpc list \<times> (error + TxVerification)" where
  "VerifyTransaction g lib c txHash =
    (let txHashObj = HexToHash lib txHash in
     if txHashObj = 0 then ([], Inl ''invalid transaction hash format'')
     else case TransactionByHash c txHashObj of
       Inl err \<Rightarrow> ([RpcTransactionByHash txHashObj], Inl ''transaction not found'')
     | Inr (tx, isPending) \<Rightarrow>
        if isPending
        then ([RpcTransactionByHash txHashObj],
              Inr \<lparr> ver_TxHash = txHash, Status = ''pending'', ver_BlockNumber = 0, GasUsed = 0,
                    Success = False, IsContractCall = False \<rparr>)
        else case TransactionReceipt c txHashObj of
          Inl err \<Rightarrow> ([RpcTransactionByHash txHashObj, RpcTransactionReceipt txHashObj],
                      Inl ''failed to get transaction receipt'')
        | Inr receipt \<Rightarrow>
           ([RpcTransactionByHash txHashObj, RpcTransactionReceipt txHashObj],
            Inr \<lparr> ver_TxHash = txHash,
                  Status = (if ReceiptStatus receipt = ReceiptStatusSuccessful
                            then ''success'' else ''failed''),
                  ver_BlockNumber = big_uint64 (ReceiptBlockNumber receipt),
                  GasUsed = ReceiptGasUsed receipt,
                  Success = (ReceiptStatus receipt = ReceiptStatusSuccessful),
                  IsContractCall = (To tx = Some (contractAddress g)) \<rparr>))"

section \<open>Payment confirmation\<close>

text \<open>\<open>model.OrderStatus\<close>, src/model/model.go lines 9-15.\<close>

type_synonym OrderStatus = string

definition StatusPending :: OrderStatus where
  "StatusPending = ''PENDING''"

definition StatusPaid :: OrderStatus where
  "StatusPaid = ''PAID''"

definition StatusError :: OrderStatus where
  "StatusError = ''PAYMENT_ERROR''"

text \<open>
  \<open>CheckPaymentStatus\<close>, src/unnamed/part_002 lines 109-154. The Go function returns a
  status and an error; \<open>None\<close> is the nil error.
\<close>

definition CheckPaymentStatus ::
  "Common \<Rightarrow> Client \<Rightarrow> string \<Rightarrow> string \<Rightarrow> int \<Rightarrow> rpc list \<times> OrderStatus \<times> error option" where
  "CheckPaymentStatus lib c txHash expectedAddr expectedWei =
    (let txHashObj = HexToHash lib txHash in
     if txHashObj = 0 then ([], StatusError, Some ''invalid transaction hash format'')
     else
      let expectedAddrObj = HexToAddress lib expectedAddr in
      case TransactionByHash c txHashObj of
        Inl err \<Rightarrow> ([RpcTransactionByHash txHashObj], StatusError,
                    Some ''transaction not found or node error'')
      | Inr (tx, isPending) \<Rightarrow>
         if isPending
         then ([RpcTransactionByHash txHashObj], StatusPending,
               Some ''transaction is still pending'')
         else case TransactionReceipt c txHashObj of
           Inl err \<Rightarrow> ([RpcTransactionByHash txHashObj, RpcTransactionReceipt txHashObj],
                       StatusError, Some ''failed to get transaction receipt'')
         | Inr receipt \<Rightarrow>
            ([RpcTransactionByHash txHashObj, RpcTransactionReceipt txHashObj],
             if ReceiptStatus receipt \<noteq> ReceiptStatusSuccessful
             then (StatusError, Some ''transaction failed on chain (reverted)'')
             else if Value tx < expectedWei
             then (StatusError, Some ''insufficient payment amount'')
             else if To tx = None
             then (StatusError, Some ''transaction is not a transfer to a valid address'')
             else if the (To tx) \<noteq> expectedAddrObj
             then (StatusError, Some ''transaction sent to wrong recipient address'')
             else (StatusPaid, None)))"

section \<open>Concrete node answers for closed statements\<close>

definition demo_common :: Common where
  "demo_common = \<lparr> HexToHash = (\<lambda>s. if s = ''0x77'' then 0x77 else 0),
                   HexToAddress = (\<lambda>s. if s = ''0xA11CE'' then 0xA11CE else 0) \<rparr>"

text \<open>
  A node at block \<open>head\<close> that knows one transaction, \<open>0x77\<close>, with the given value,
  target, pending flag and receipt status, and has no logs.
\<close>

definition demo_client :: "int \<Rightarrow> Transaction \<Rightarrow> bool \<Rightarrow> uint64 \<Rightarrow> Client" where
  "demo_client head tx pending status =
     \<lparr> HeaderByNumber = Inr head,
       FilterLogs = (\<lambda>q. Inr []),
       CallContract = (\<lambda>a d. Inl ''execution reverted''),
       TransactionByHash = (\<lambda>h. if h = 0x77 then Inr (tx, pending) else Inl ''not found''),
       TransactionReceipt = (\<lambda>h. if h = 0x77
          then Inr \<lparr> ReceiptStatus = status, ReceiptBlockNumber = 41, ReceiptGasUsed = 21000 \<rparr>
          else Inl ''not found'') \<rparr>"

section \<open>Polling fallback\<close>

text \<open>
  \<open>pollEvents\<close>, src/main.go lines 623-692. One iteration of the \<open>for/select\<close> loop is
  driven by what the environment does at that point: either the context is done, or the
  ticker fires and the node answers as the given \<open>Client\<close> does. While the events of one
  tick are written to the channel the context may be cancelled: \<open>Some n\<close> says that the
  \<open>ctx.Done()\<close> case is taken instead of sending event number \<open>n\<close> (counted from 0),
  \<open>None\<close> that every send goes through.
\<close>

datatype poll_input = PollCtxDone | PollTick Client "nat option"

datatype poll_status = Running | Returned | ChannelClosed

text \<open>
  The outcome of one iteration: the value of \<open>lastProcessedBlock\<close> after it, whether the
  loop goes on, the requests sent to the node and the events written to the channel.
\<close>

record poll_step =
  cursor :: uint64
  status :: poll_status
  requests :: "rpc list"
  delivered :: "ContractEvent list"

definition poll_tick :: "FrimaContractGateway \<Rightarrow> uint64 \<Rightarrow> poll_input \<Rightarrow> poll_step" where
  "poll_tick g lastProcessedBlock inp =
    (case inp of
       PollCtxDone \<Rightarrow>
         \<lparr> cursor = lastProcessedBlock, status = Returned, requests = [], delivered = [] \<rparr>
     | PollTick c cancel \<Rightarrow>
        (case HeaderByNumber c of
           Inl err \<Rightarrow>
             \<lparr> cursor = lastProcessedBlock, status = ChannelClosed,
               requests = [RpcHeaderByNumber], delivered = [] \<rparr>
         | Inr number \<Rightarrow>
            (let currentBlock = big_uint64 number in
             if currentBlock \<le> lastProcessedBlock
             then \<lparr> cursor = lastProcessedBlock, status = Running,
                    requests = [RpcHeaderByNumber], delivered = [] \<rparr>
             else
              (let query = \<lparr> Addresses = [contractAddress g],
                             FromBlock = lastProcessedBlock + 1,
                             ToBlock = currentBlock \<rparr>
               in case FilterLogs c query of
                    Inl err \<Rightarrow>
                      \<lparr> cursor = currentBlock, status = Running,
                        requests = [RpcHeaderByNumber, RpcFilterLogs query], delivered = [] \<rparr>
                  | Inr logs \<Rightarrow>
                     (let events = scan_logs g logs in
                      if (case cancel of None \<Rightarrow> False | Some n \<Rightarrow> n < length events)
                      then \<lparr> cursor = lastProcessedBlock, status = Returned,
                             requests = [RpcHeaderByNumber, RpcFilterLogs query],
                             delivered = take (the cancel) events \<rparr>
                      else \<lparr> cursor = currentBlock, status = Running,
                             requests = [RpcHeaderByNumber, RpcFilterLogs query],
                             delivered = events \<rparr>)))))"

text \<open>
  The loop over a finite prefix of the environment's inputs, starting with
  \<open>lastProcessedBlock = startBlock\<close>: the list of iterations that ran.
\<close>

fun pollEvents :: "FrimaContractGateway \<Rightarrow> uint64 \<Rightarrow> poll_input list \<Rightarrow> poll_step list" where
  "pollEvents g lastProcessedBlock [] = []"
| "pollEvents g lastProcessedBlock (inp # rest) =
    (let r = poll_tick g lastProcessedBlock inp
     in r # (if status r = Running then pollEvents g (cursor r) rest else []))"

text \<open>The log queries of a run, in the order they were sent.\<close>

fun rpc_queries :: "rpc list \<Rightarrow> FilterQuery list" where
  "rpc_queries [] = []"
| "rpc_queries (RpcFilterLogs q # rs) = q # rpc_queries rs"
| "rpc_queries (r # rs) = rpc_queries rs"

definition run_queries :: "poll_step list \<Rightarrow> FilterQuery list" where
  "run_queries steps = concat (map (\<lambda>s. rpc_queries (requests s)) steps)"

text \<open>
  A list of queries continues a cursor without overlap: the first range starts at the
  block after the cursor (no wrap-around), is not empty, and the next range starts at the
  block after its end.
\<close>

fun chained :: "uint64 \<Rightarrow> FilterQuery list \<Rightarrow> bool" where
  "chained lpb [] = True"
| "chained lpb (q # qs) =
    (unat (FromBlock q) = unat lpb + 1 \<and> FromBlock q \<le> ToBlock q \<and> chained (ToBlock q) qs)"

text \<open>A node for closed statements about polling: head and answer to the log query.\<close>

definition poll_client :: "int \<Rightarrow> (error + Log list) \<Rightarrow> Client" where
  "poll_client head logs =
     \<lparr> HeaderByNumber = Inr head,
       FilterLogs = (\<lambda>q. logs),
       CallContract = (\<lambda>a d. Inl ''execution reverted''),
       TransactionByHash = (\<lambda>h. Inl ''not found''),
       TransactionReceipt = (\<lambda>h. Inl ''not found'') \<rparr>"

section \<open>Notifier\<close>

text \<open>
  \<open>(*big.Int).String()\<close>: the decimal digits, with a minus sign for a negative number,
  and the text \<open><nil>\<close> for the nil pointer (math/big prints a nil receiver that way).
\<close>

definition digit_char :: "nat \<Rightarrow> char" where
  "digit_char d = ''0123456789'' ! d"

function nat_dec :: "nat \<Rightarrow> string" where
  "nat_dec n = (if n < 10 then [digit_char n] else nat_dec (n div 10) @ [digit_char (n mod 10)])"
  by pat_completeness auto
termination
  by (relation "measure (\<lambda>n. n)") auto

definition int_dec :: "int \<Rightarrow> string" where
  "int_dec i = (if i < 0 then CHR ''-'' # nat_dec (nat (- i)) else nat_dec (nat i))"

definition bigIntString :: "int option \<Rightarrow> string" where
  "bigIntString p = (case p of None \<Rightarrow> ''<nil>'' | Some i \<Rightarrow> int_dec i)"

text \<open>A decimal numeral: an optional minus sign and at least one digit.\<close>

definition is_digit :: "char \<Rightarrow> bool" where
  "is_digit ch \<longleftrightarrow> ch \<in> set ''0123456789''"

definition is_decimal :: "string \<Rightarrow> bool" where
  "is_decimal s =
    (case s of
       [] \<Rightarrow> False
     | ch # cs \<Rightarrow> if ch = CHR ''-'' then cs \<noteq> [] \<and> list_all is_digit cs
                  else list_all is_digit (ch # cs))"

text \<open>
  The JSON body of a notification: \<open>uint64\<close> fields are JSON numbers, strings are JSON
  strings. The Go map is kept as the list of its entries in source order.
\<close>

datatype json_value = JNumber nat | JString string

type_synonym payload = "(string \<times> json_value) list"

text \<open>
  The \<open>switch event.Type\<close> of \<open>handleEvent\<close> (src/Dockerfile lines 158-222, the same
  cases in every revision): endpoint and payload, \<open>None\<close> for the default case, which
  returns without notifying.
\<close>

definition event_request :: "ContractEvent \<Rightarrow> (string \<times> payload) option" where
  "event_request event =
    (if Type event = EventItemListed then
       Some (''/api/v1/blockchain/item-listed'',
         [(''chain_item_id'', JNumber (unat (ItemId event))),
          (''token_id'', JNumber (unat (TokenId event))),
          (''title'', JString (Title event)),
          (''price_wei'', JString (bigIntString (Price event))),
          (''explanation'', JString (Explanation event)),
          (''image_url'', JString (ImageUrl event)),
          (''uid'', JString (Uid event)),
          (''category'', JString (Category event)),
          (''seller'', JString (Seller event)),
          (''created_at'', JNumber (unat (CreatedAt event))),
          (''tx_hash'', JString (TxHash event))])
     else if Type event = EventItemPurchased then
       Some (''/api/v1/blockchain/item-purchased'',
         [(''chain_item_id'', JNumber (unat (ItemId event))),
          (''buyer'', JString (Buyer event)),
          (''price_wei'', JString (bigIntString (Price event))),
          (''token_id'', JNumber (unat (TokenId event))),
          (''tx_hash'', JString (TxHash event))])
     else if Type event = EventItemUpdated then
       Some (''/api/v1/blockchain/item-updated'',
         [(''chain_item_id'', JNumber (unat (ItemId event))),
          (''title'', JString (Title event)),
          (''price_wei'', JString (bigIntString (Price event))),
          (''explanation'', JString (Explanation event)),
          (''image_url'', JString (ImageUrl event)),
          (''category'', JString (Category event)),
          (''updated_at'', JNumber (unat (UpdatedAt event))),
          (''tx_hash'', JString (TxHash event))])
     else if Type event = EventItemCancelled then
       Some (''/api/v1/blockchain/item-cancelled'',
         [(''chain_item_id'', JNumber (unat (ItemId event))),
          (''seller'', JString (Seller event)),
          (''tx_hash'', JString (TxHash event))])
     else if Type event = EventReceiptConfirmed then
       Some (''/api/v1/blockchain/receipt-confirmed'',
         [(''chain_item_id'', JNumber (unat (ItemId event))),
          (''buyer'', JString (Buyer event)),
          (''seller'', JString (Seller event)),
          (''price_wei'', JString (bigIntString (Price event))),
          (''tx_hash'', JString (TxHash event))])
     else None)"

text \<open>
  What the backend does with one POST: the transport fails, or a response with a status
  code arrives. The environment of a notification says this for each attempt, counted
  from 0.
\<close>

datatype http_reply = TransportError | HttpStatus int

datatype effect = SleepSeconds nat | HttpPost string payload

datatype notify_error =
    SendFailed
  | BackendStatus int
  | FailedAfterRetries nat "notify_error option"

text \<open>
  The retry loop of \<open>notifyBackend\<close>, src/Dockerfile lines 242-269 (the same loop in
  src/main.go lines 359-401 and src/unnamed/part_005 lines 179-211): the effects in order
  and the returned error, \<open>None\<close> for nil.
\<close>

function notify_loop ::
  "(nat \<Rightarrow> http_reply) \<Rightarrow> string \<Rightarrow> payload \<Rightarrow> nat \<Rightarrow> nat \<Rightarrow> notify_error option
     \<Rightarrow> effect list \<times> notify_error option" where
  "notify_loop backend url body maxRetries i lastErr =
    (if i < maxRetries then
       (let attempt = (if i > 0 then [SleepSeconds i] else []) @ [HttpPost url body] in
        case backend i of
          TransportError \<Rightarrow>
            (case notify_loop backend url body maxRetries (i + 1) (Some SendFailed) of
               (es, r) \<Rightarrow> (attempt @ es, r))
        | HttpStatus code \<Rightarrow>
            if 200 \<le> code \<and> code < 300 then (attempt, None)
            else if 400 \<le> code \<and> code < 500 then (attempt, Some (BackendStatus code))
            else
              (case notify_loop backend url body maxRetries (i + 1)
                      (Some (BackendStatus code)) of
                 (es, r) \<Rightarrow> (attempt @ es, r)))
     else ([], Some (FailedAfterRetries maxRetries lastErr)))"
  by pat_completeness auto
termination
  by (relation "measure (\<lambda>(backend, url, body, maxRetries, i, lastErr). maxRetries - i)") auto

text \<open>
  \<open>notifyBackend\<close>, src/Dockerfile lines 230-270. \<open>json.Marshal\<close> cannot fail on a map
  of strings and unsigned integers, so its error branch is left out.
\<close>

definition notifyBackend ::
  "string \<Rightarrow> (nat \<Rightarrow> http_reply) \<Rightarrow> string \<Rightarrow> payload \<Rightarrow> effect list \<times> notify_error option" where
  "notifyBackend backendBaseURL backend endpoint body =
     notify_loop backend (backendBaseURL @ endpoint) body 3 0 None"

text \<open>
  \<open>notifyBackend\<close> of the first revision, src/unnamed/part_004 lines 135-155: one POST;
  a transport error is returned, any response (whatever its status) gives nil.
\<close>

definition notifyBackend_part_004 ::
  "string \<Rightarrow> (nat \<Rightarrow> http_reply) \<Rightarrow> string \<Rightarrow> payload \<Rightarrow> effect list \<times> notify_error option" where
  "notifyBackend_part_004 backendBaseURL backend endpoint body =
     (case backend 0 of
        TransportError \<Rightarrow> ([HttpPost (backendBaseURL @ endpoint) body], Some SendFailed)
      | HttpStatus code \<Rightarrow> ([HttpPost (backendBaseURL @ endpoint) body], None))"

text \<open>\<open>handleEvent\<close>, src/Dockerfile lines 154-227: the effects of handling one event.\<close>

definition handleEvent :: "string \<Rightarrow> (nat \<Rightarrow> http_reply) \<Rightarrow> ContractEvent \<Rightarrow> effect list" where
  "handleEvent backendBaseURL backend event =
    (case event_request event of
       None \<Rightarrow> []
     | Some (endpoint, body) \<Rightarrow> fst (notifyBackend backendBaseURL backend endpoint body))"

text \<open>The POSTs among the effects, and a reply that the loop retries by the claim's words.\<close>

fun posts :: "effect list \<Rightarrow> (string \<times> payload) list" where
  "posts [] = []"
| "posts (HttpPost url body # es) = (url, body) # posts es"
| "posts (e # es) = posts es"

definition is_2xx :: "http_reply \<Rightarrow> bool" where
  "is_2xx r = (case r of TransportError \<Rightarrow> False | HttpStatus code \<Rightarrow> 200 \<le> code \<and> code < 300)"

definition is_4xx :: "http_reply \<Rightarrow> bool" where
  "is_4xx r = (case r of TransportError \<Rightarrow> False | HttpStatus code \<Rightarrow> 400 \<le> code \<and> code < 500)"

definition is_5xx_or_transport :: "http_reply \<Rightarrow> bool" where
  "is_5xx_or_transport r =
     (case r of TransportError \<Rightarrow> True | HttpStatus code \<Rightarrow> 500 \<le> code \<and> code < 600)"

definition reply_error :: "http_reply \<Rightarrow> notify_error" where
  "reply_error r = (case r of TransportError \<Rightarrow> SendFailed | HttpStatus code \<Rightarrow> BackendStatus code)"

section \<open>Ingestion orchestrator\<close>

text \<open>
  \<open>time.Duration\<close> is an \<open>int64\<close> count of nanoseconds: durations are integers and the
  product \<open>retryDelay * 2\<close> is reduced to 64 bits, two's complement.
\<close>

definition Second :: int where
  "Second = 1000000000"

definition int64 :: "int \<Rightarrow> int" where
  "int64 x = signed_take_bit 63 x"

text \<open>\<open>min\<close>, src/Dockerfile lines 146-151.\<close>

definition min_duration :: "int \<Rightarrow> int \<Rightarrow> int" where
  "min_duration a b = (if a < b then a else b)"

definition maxRetryDelay :: int where
  "maxRetryDelay = 60 * Second"

text \<open>\<open>retryDelay = min(retryDelay*2, maxRetryDelay)\<close>.\<close>

definition next_delay :: "int \<Rightarrow> int" where
  "next_delay retryDelay = min_duration (int64 (retryDelay * 2)) maxRetryDelay"

text \<open>
  One iteration of the loop of \<open>startRealtimeListener\<close> is driven by the environment: the
  context is done at the top of the loop; or \<open>SubscribeEvents\<close> fails; or it succeeds and
  the channel later closes after delivering some events. The flag of the last two says
  whether the context is cancelled during the wait that follows.
\<close>

datatype round =
    RoundCtxDone
  | RoundSubscribeFailed bool
  | RoundSubscribed "ContractEvent list" bool

datatype listener_effect = Subscribe | Handle ContractEvent | Wait int

datatype listener_status = Looping | Stopped

text \<open>
  The loop of \<open>startRealtimeListener\<close>, src/Dockerfile lines 111-143, over a finite prefix
  of the environment's rounds: the effects in order, the value of \<open>retryDelay\<close> at the end
  and whether the function has returned.
\<close>

fun realtime_loop :: "int \<Rightarrow> round list \<Rightarrow> listener_effect list \<times> int \<times> listener_status" where
  "realtime_loop retryDelay [] = ([], retryDelay, Looping)"
| "realtime_loop retryDelay (RoundCtxDone # rest) = ([], retryDelay, Stopped)"
| "realtime_loop retryDelay (RoundSubscribeFailed cancelled # rest) =
    (if cancelled then ([Subscribe], retryDelay, Stopped)
     else case realtime_loop (next_delay retryDelay) rest of
            (es, r) \<Rightarrow> (Subscribe # Wait retryDelay # es, r))"
| "realtime_loop retryDelay (RoundSubscribed events cancelled # rest) =
    (let retryDelay = 5 * Second in
     if cancelled then (Subscribe # map Handle events, retryDelay, Stopped)
     else case realtime_loop (next_delay retryDelay) rest of
            (es, r) \<Rightarrow> (Subscribe # map Handle events @ Wait retryDelay # es, r))"

text \<open>\<open>startRealtimeListener\<close>, src/Dockerfile lines 107-144.\<close>

definition startRealtimeListener :: "round list \<Rightarrow> listener_effect list \<times> int \<times> listener_status" where
  "startRealtimeListener rounds = realtime_loop (5 * Second) rounds"

text \<open>
  \<open>StartEventListener\<close>, src/Dockerfile lines 75-104: the events of the backfill scan are
  handled in scan order, then the realtime loop starts.
\<close>

definition StartEventListener ::
  "FrimaContractGateway \<Rightarrow> Client \<Rightarrow> round list \<Rightarrow> listener_effect list" where
  "StartEventListener g c rounds =
     map Handle (snd (ScanPastEvents g c 0 None)) @ fst (startRealtimeListener rounds)"

text \<open>The waits among the effects.\<close>

fun waits :: "listener_effect list \<Rightarrow> int list" where
  "waits [] = []"
| "waits (Wait d # es) = d # waits es"
| "waits (e # es) = waits es"

section \<open>Decoder: contract address\<close>

text \<open>
  C4. For every raw log whose emitting contract address differs from the configured
  marketplace address, the decoder yields no event, whatever topic 0 is.
\<close>

theorem parseLog_foreign_address:
  "Address vLog \<noteq> contractAddress g \<Longrightarrow> parseLog g vLog = None"
  by (simp add: parseLog_def)

theorem parseLog_foreign_address_witness:
  "Address \<lparr> Address = 0xBAD, Topics = [101, 7, 3, 9], Data = [], BlockNumber = 12,
             LogTxHash = 0x77 \<rparr> \<noteq> contractAddress demo_gateway
   \<and> parseLog demo_gateway \<lparr> Address = 0xBAD, Topics = [101, 7, 3, 9], Data = [],
        BlockNumber = 12, LogTxHash = 0x77 \<rparr> = None"
proof -
  let ?l = "\<lparr> Address = 0xBAD, Topics = [101, 7, 3, 9], Data = [], BlockNumber = 12,
              LogTxHash = 0x77 \<rparr>"
  have h: "Address ?l \<noteq> contractAddress demo_gateway"
    by (simp add: demo_gateway_def)
  show ?thesis using h parseLog_foreign_address [OF h] by simp
qed

section \<open>Decoder: too few topics\<close>

lemma short_ItemListed:
  "length (Topics vLog) < 4 \<Longrightarrow> short_event g EventItemListed vLog (parseItemListed g vLog)"
  by (simp add: short_event_def parseItemListed_def new_event_def zero_event_def Let_def
      split: option.splits)

lemma short_ItemPurchased:
  "length (Topics vLog) < 3 \<Longrightarrow> short_event g EventItemPurchased vLog (parseItemPurchased g vLog)"
  by (simp add: short_event_def parseItemPurchased_def new_event_def zero_event_def Let_def
      split: option.splits)

lemma short_ItemUpdated:
  "length (Topics vLog) < 2 \<Longrightarrow> short_event g EventItemUpdated vLog (parseItemUpdated g vLog)"
  by (simp add: short_event_def parseItemUpdated_def new_event_def zero_event_def Let_def
      split: option.splits)

lemma short_ItemCancelled:
  "length (Topics vLog) < 3 \<Longrightarrow> short_event g EventItemCancelled vLog (parseItemCancelled g vLog)"
  by (simp add: short_event_def parseItemCancelled_def new_event_def zero_event_def Let_def)

lemma short_ReceiptConfirmed:
  "length (Topics vLog) < 4 \<Longrightarrow>
   short_event g EventReceiptConfirmed vLog (parseReceiptConfirmed g vLog)"
  by (simp add: short_event_def parseReceiptConfirmed_def new_event_def zero_event_def Let_def
      split: option.splits)

lemma kinds_distinct:
  "EventItemListed \<noteq> EventItemPurchased" "EventItemListed \<noteq> EventItemUpdated"
  "EventItemListed \<noteq> EventItemCancelled" "EventItemListed \<noteq> EventReceiptConfirmed"
  "EventItemPurchased \<noteq> EventItemUpdated" "EventItemPurchased \<noteq> EventItemCancelled"
  "EventItemPurchased \<noteq> EventReceiptConfirmed" "EventItemUpdated \<noteq> EventItemCancelled"
  "EventItemUpdated \<noteq> EventReceiptConfirmed" "EventItemCancelled \<noteq> EventReceiptConfirmed"
  by (simp_all add: EventItemListed_def EventItemPurchased_def EventItemUpdated_def
      EventItemCancelled_def EventReceiptConfirmed_def)

lemma required_topics_simps:
  "required_topics EventItemListed = 4" "required_topics EventItemPurchased = 3"
  "required_topics EventItemUpdated = 2" "required_topics EventItemCancelled = 3"
  "required_topics EventReceiptConfirmed = 4"
  using kinds_distinct by (simp_all add: required_topics_def)

text \<open>
  C2 as stated (a log whose topic 0 is a known signature but that has fewer topics than
  the kind requires decodes to no event) fails: a log of the configured contract whose only
  topic is the \<open>ItemCancelled\<close> signature decodes to an \<open>ItemCancelled\<close> event with item
  id 0 and an empty seller.
\<close>

theorem parseLog_short_topics_counterexample:
  "sig_kind demo_gateway (hd [104]) = Some EventItemCancelled
   \<and> length [104 :: hash] < required_topics EventItemCancelled
   \<and> parseLog demo_gateway \<lparr> Address = 0xC0FFEE, Topics = [104], Data = [],
        BlockNumber = 12, LogTxHash = 0x77 \<rparr>
     = Some (zero_event \<lparr> Type := EventItemCancelled, TxHash := ''0x'', BlockNo := 12 \<rparr>)"
  by (simp add: parseLog_def dispatch_def sig_kind_def demo_gateway_def demo_eventID_def
      parseItemCancelled_def new_event_def required_topics_simps)

text \<open>
  C2, amended. For every log of the configured contract whose topic 0 is one of the five
  known signatures and that has fewer topics than that kind requires (4 for ItemListed and
  ReceiptConfirmed, 3 for ItemPurchased and ItemCancelled, 2 for ItemUpdated), decoding
  yields an event of that kind that carries the transaction hash and block number of the
  log and whose topic-derived fields are left at their zero values: item id 0, empty
  seller, empty buyer.
\<close>

theorem parseLog_short_topics:
  assumes "Topics vLog \<noteq> []" and "Address vLog = contractAddress g"
    and "sig_kind g (hd (Topics vLog)) = Some k"
    and "length (Topics vLog) < required_topics k"
  shows "\<exists>ev. parseLog g vLog = Some ev \<and> short_event g k vLog ev"
  using assms
  by (auto simp: parseLog_def dispatch_def sig_kind_def Let_def required_topics_simps
      short_ItemListed short_ItemPurchased short_ItemUpdated short_ItemCancelled
      short_ReceiptConfirmed split: if_splits)

theorem parseLog_short_topics_witness:
  "\<exists>ev. parseLog demo_gateway \<lparr> Address = 0xC0FFEE, Topics = [101, 7], Data = [],
          BlockNumber = 12, LogTxHash = 0x77 \<rparr> = Some ev
      \<and> short_event demo_gateway EventItemListed
          \<lparr> Address = 0xC0FFEE, Topics = [101, 7], Data = [], BlockNumber = 12,
            LogTxHash = 0x77 \<rparr> ev"
proof -
  let ?l = "\<lparr> Address = 0xC0FFEE, Topics = [101, 7], Data = [], BlockNumber = 12,
              LogTxHash = 0x77 \<rparr>"
  have a: "Topics ?l \<noteq> []" by simp
  have b: "Address ?l = contractAddress demo_gateway" by (simp add: demo_gateway_def)
  have c: "sig_kind demo_gateway (hd (Topics ?l)) = Some EventItemListed"
    by (simp add: sig_kind_def demo_gateway_def demo_eventID_def)
  have d: "length (Topics ?l) < required_topics EventItemListed"
    by (simp add: required_topics_simps)
  show ?thesis by (rule parseLog_short_topics [OF a b c d])
qed

section \<open>GetItem: the item id goes through int64\<close>

lemma uint_sint_cases:
  fixes w :: uint64
  shows "(0 \<le> sint w \<longrightarrow> uint w = sint w) \<and> (sint w < 0 \<longrightarrow> uint w = sint w + 2 ^ 64)"
proof -
  have lo: "- (2 ^ 63) \<le> sint w" using sint_ge [of w] by simp
  have hi: "sint w < 2 ^ 63" using sint_lt [of w] by simp
  have u: "uint w = sint w mod 2 ^ 64"
    using uint_sint [of w] by (simp add: take_bit_eq_mod)
  have pos: "0 \<le> sint w \<Longrightarrow> sint w mod 2 ^ 64 = sint w"
    using hi by (intro mod_pos_pos_trivial) auto
  have "sint w < 0 \<Longrightarrow> (sint w + 2 ^ 64) mod 2 ^ 64 = sint w + 2 ^ 64"
    using lo by (intro mod_pos_pos_trivial) auto
  then have neg: "sint w < 0 \<Longrightarrow> sint w mod 2 ^ 64 = sint w + 2 ^ 64"
    by simp
  show ?thesis using u pos neg by simp
qed

lemma GetItem_request:
  "fst (GetItem g abi c itemId) =
     (case Pack abi ''getItem'' [getItem_argument itemId] of
        Inl err \<Rightarrow> []
      | Inr data \<Rightarrow> [RpcCallContract (contractAddress g) data])"
  by (simp add: GetItem_def split: sum.splits)

text \<open>
  C10. \<open>GetItem\<close> packs \<open>big.NewInt(int64(itemId))\<close> as the argument of \<open>getItem\<close> and
  sends exactly that call. For every \<open>itemId\<close> below \<open>2^63\<close> the packed argument equals
  \<open>itemId\<close>; for every \<open>itemId\<close> from \<open>2^63\<close> on it is \<open>itemId - 2^64\<close>, a negative
  number different from the requested id.
\<close>

theorem GetItem_signed_argument:
  fixes itemId :: uint64
  shows "fst (GetItem g abi c itemId) =
           (case Pack abi ''getItem'' [getItem_argument itemId] of
              Inl err \<Rightarrow> []
            | Inr data \<Rightarrow> [RpcCallContract (contractAddress g) data])
       \<and> (uint itemId < 2 ^ 63 \<longrightarrow> getItem_argument itemId = uint itemId)
       \<and> (2 ^ 63 \<le> uint itemId \<longrightarrow>
            getItem_argument itemId = uint itemId - 2 ^ 64
          \<and> getItem_argument itemId < 0
          \<and> getItem_argument itemId \<noteq> uint itemId)"
proof -
  have hi: "sint itemId < 2 ^ 63" using sint_lt [of itemId] by simp
  have lo: "- (2 ^ 63) \<le> sint itemId" using sint_ge [of itemId] by simp
  have "(uint itemId < 2 ^ 63 \<longrightarrow> getItem_argument itemId = uint itemId)
       \<and> (2 ^ 63 \<le> uint itemId \<longrightarrow>
            getItem_argument itemId = uint itemId - 2 ^ 64
          \<and> getItem_argument itemId < 0
          \<and> getItem_argument itemId \<noteq> uint itemId)"
    unfolding getItem_argument_def
    using uint_sint_cases [of itemId] hi lo by (cases "0 \<le> sint itemId") auto
  then show ?thesis using GetItem_request [of g abi c itemId] by blast
qed

theorem GetItem_signed_argument_witness:
  "uint (7 :: uint64) < 2 ^ 63 \<and> getItem_argument 7 = 7
   \<and> 2 ^ 63 \<le> uint (0x8000000000000005 :: uint64)
   \<and> getItem_argument 0x8000000000000005 = - 9223372036854775803"
proof -
  have a: "uint (7 :: uint64) < 2 ^ 63" by simp
  have b: "2 ^ 63 \<le> uint (0x8000000000000005 :: uint64)" by simp
  have "getItem_argument 7 = uint (7 :: uint64)"
    using GetItem_signed_argument [of undefined undefined undefined 7] a by blast
  moreover have "getItem_argument 0x8000000000000005 = uint (0x8000000000000005 :: uint64) - 2 ^ 64"
    using GetItem_signed_argument [of undefined undefined undefined "0x8000000000000005"] b
    by blast
  ultimately show ?thesis using a b by simp
qed

section \<open>Backfill scanner: the scanned range\<close>

lemma actualFromBlock_zero:
  "unat (actualFromBlock window currentBlock 0) = unat currentBlock - unat window"
proof (cases "currentBlock > window")
  case True
  then have "window \<le> currentBlock" by simp
  then have "unat (currentBlock - window) = unat currentBlock - unat window"
    by (rule unat_sub)
  with True show ?thesis by (simp add: actualFromBlock_def)
next
  case False
  then have "currentBlock \<le> window" by simp
  then have "unat currentBlock \<le> unat window" by (simp add: word_le_nat_alt)
  with False show ?thesis by (simp add: actualFromBlock_def)
qed

text \<open>
  C6. A backfill scan called with \<open>fromBlock = 0\<close>, once the node has answered with its
  head, sends one log query for the contract address whose range starts at head minus the
  lookback window of 10000 blocks (truncated subtraction: block 0 when the head is not
  larger than the window) and, when \<open>toBlock\<close> is nil, ends at the head.
\<close>

theorem ScanPastEvents_range:
  assumes "HeaderByNumber c = Inr number"
  shows "\<exists>q. fst (ScanPastEvents g c 0 toBlock) = [RpcHeaderByNumber, RpcFilterLogs q]
           \<and> Addresses q = [contractAddress g]
           \<and> unat (FromBlock q) = unat (big_uint64 number) - 10000
           \<and> (big_uint64 number \<le> 10000 \<longrightarrow> FromBlock q = 0)
           \<and> (toBlock = None \<longrightarrow> ToBlock q = big_uint64 number)"
proof -
  let ?cur = "big_uint64 number"
  let ?q = "\<lparr> Addresses = [contractAddress g], FromBlock = actualFromBlock 10000 ?cur 0,
              ToBlock = actualToBlock ?cur toBlock \<rparr>"
  have 1: "fst (ScanPastEvents g c 0 toBlock) = [RpcHeaderByNumber, RpcFilterLogs ?q]"
    using assms by (simp add: ScanPastEvents_def Let_def split: sum.splits)
  have 2: "unat (FromBlock ?q) = unat ?cur - 10000"
    using actualFromBlock_zero [of 10000 ?cur] by simp
  have 3: "?cur \<le> 10000 \<longrightarrow> FromBlock ?q = 0"
    by (simp add: actualFromBlock_def not_less [symmetric])
  have 4: "toBlock = None \<longrightarrow> ToBlock ?q = ?cur"
    by (simp add: actualToBlock_def)
  show ?thesis using 1 2 3 4 by (intro exI [of _ ?q]) simp
qed

theorem ScanPastEvents_range_witness:
  "\<exists>q. fst (ScanPastEvents demo_gateway (demo_client 12345 \<lparr> Value = 0, To = None \<rparr> False 1)
             0 None) = [RpcHeaderByNumber, RpcFilterLogs q]
      \<and> Addresses q = [0xC0FFEE] \<and> unat (FromBlock q) = 2345 \<and> ToBlock q = 12345"
proof -
  let ?c = "demo_client 12345 \<lparr> Value = 0, To = None \<rparr> False 1"
  have h: "HeaderByNumber ?c = Inr 12345" by (simp add: demo_client_def)
  show ?thesis
    using ScanPastEvents_range [OF h, of demo_gateway None]
    by (simp add: demo_gateway_def big_uint64_def)
qed

text \<open>
  The earlier revision of the scanner (src/gateway/contract/gateway.go) differs in the
  window only: 1000 blocks.
\<close>

lemma ScanPastEvents_gateway_go_range:
  assumes "HeaderByNumber c = Inr number"
  shows "\<exists>q. fst (ScanPastEvents_gateway_go g c 0 toBlock) = [RpcHeaderByNumber, RpcFilterLogs q]
           \<and> unat (FromBlock q) = unat (big_uint64 number) - 1000
           \<and> (toBlock = None \<longrightarrow> ToBlock q = big_uint64 number)"
proof -
  let ?cur = "big_uint64 number"
  let ?q = "\<lparr> Addresses = [contractAddress g], FromBlock = actualFromBlock 1000 ?cur 0,
              ToBlock = actualToBlock ?cur toBlock \<rparr>"
  have 1: "fst (ScanPastEvents_gateway_go g c 0 toBlock) = [RpcHeaderByNumber, RpcFilterLogs ?q]"
    using assms by (simp add: ScanPastEvents_gateway_go_def Let_def split: sum.splits)
  have 2: "unat (FromBlock ?q) = unat ?cur - 1000"
    using actualFromBlock_zero [of 1000 ?cur] by simp
  have 4: "toBlock = None \<longrightarrow> ToBlock ?q = ?cur"
    by (simp add: actualToBlock_def)
  show ?thesis using 1 2 4 by (intro exI [of _ ?q]) simp
qed

section \<open>Transaction verifier: pending and reverted transactions\<close>

text \<open>
  C7. For every transaction hash (one that passes the zero-hash check) whose transaction
  the node finds and reports as pending, \<open>VerifyTransaction\<close> sends the transaction lookup
  and nothing else (no receipt lookup) and returns status \<open>pending\<close> with
  \<open>success = false\<close>, block number and gas used left at zero. For a mined transaction whose
  receipt status is not the successful one, the returned status is \<open>failed\<close> with
  \<open>success = false\<close>.
\<close>

theorem VerifyTransaction_pending_failed:
  assumes "HexToHash lib txHash \<noteq> 0"
  shows "(TransactionByHash c (HexToHash lib txHash) = Inr (tx, True) \<longrightarrow>
            VerifyTransaction g lib c txHash =
              ([RpcTransactionByHash (HexToHash lib txHash)],
               Inr \<lparr> ver_TxHash = txHash, Status = ''pending'', ver_BlockNumber = 0,
                     GasUsed = 0, Success = False, IsContractCall = False \<rparr>))
       \<and> (TransactionByHash c (HexToHash lib txHash) = Inr (tx, False)
            \<and> TransactionReceipt c (HexToHash lib txHash) = Inr receipt
            \<and> ReceiptStatus receipt \<noteq> ReceiptStatusSuccessful \<longrightarrow>
            (\<exists>v. snd (VerifyTransaction g lib c txHash) = Inr v
                 \<and> Status v = ''failed'' \<and> Success v = False))"
  using assms by (simp add: VerifyTransaction_def Let_def)

theorem VerifyTransaction_pending_failed_witness:
  "VerifyTransaction demo_gateway demo_common
      (demo_client 50 \<lparr> Value = 5, To = Some 0xC0FFEE \<rparr> True 1) ''0x77''
    = ([RpcTransactionByHash 0x77],
       Inr \<lparr> ver_TxHash = ''0x77'', Status = ''pending'', ver_BlockNumber = 0,
             GasUsed = 0, Success = False, IsContractCall = False \<rparr>)
   \<and> (\<exists>v. snd (VerifyTransaction demo_gateway demo_common
                (demo_client 50 \<lparr> Value = 5, To = Some 0xC0FFEE \<rparr> False 0) ''0x77'') = Inr v
          \<and> Status v = ''failed'' \<and> Success v = False)"
proof -
  let ?tx = "\<lparr> Value = 5, To = Some (0xC0FFEE :: address) \<rparr>"
  let ?r = "\<lparr> ReceiptStatus = 0, ReceiptBlockNumber = 41, ReceiptGasUsed = 21000 \<rparr>"
  have h: "HexToHash demo_common ''0x77'' \<noteq> 0" by (simp add: demo_common_def)
  have p: "TransactionByHash (demo_client 50 ?tx True 1) (HexToHash demo_common ''0x77'')
             = Inr (?tx, True)"
    by (simp add: demo_common_def demo_client_def)
  have m: "TransactionByHash (demo_client 50 ?tx False 0) (HexToHash demo_common ''0x77'')
             = Inr (?tx, False)
         \<and> TransactionReceipt (demo_client 50 ?tx False 0) (HexToHash demo_common ''0x77'')
             = Inr ?r
         \<and> ReceiptStatus ?r \<noteq> ReceiptStatusSuccessful"
    by (simp add: demo_common_def demo_client_def ReceiptStatusSuccessful_def)
  have 1: "VerifyTransaction demo_gateway demo_common (demo_client 50 ?tx True 1) ''0x77''
             = ([RpcTransactionByHash (HexToHash demo_common ''0x77'')],
                Inr \<lparr> ver_TxHash = ''0x77'', Status = ''pending'', ver_BlockNumber = 0,
                      GasUsed = 0, Success = False, IsContractCall = False \<rparr>)"
    using VerifyTransaction_pending_failed
      [where c = "demo_client 50 ?tx True 1" and tx = ?tx and g = demo_gateway
         and receipt = ?r, OF h] p by blast
  have 2: "\<exists>v. snd (VerifyTransaction demo_gateway demo_common
                (demo_client 50 ?tx False 0) ''0x77'') = Inr v
          \<and> Status v = ''failed'' \<and> Success v = False"
    using VerifyTransaction_pending_failed
      [where c = "demo_client 50 ?tx False 0" and tx = ?tx and g = demo_gateway
         and receipt = ?r, OF h] m by blast
  show ?thesis using 1 2 by (simp add: demo_common_def)
qed

section \<open>Payment confirmation: amount and recipient\<close>

text \<open>
  C5. For a payment confirmation whose transaction is mined and not reverted, the checks
  run in this order: a value below the expected amount gives the insufficient-amount
  failure; otherwise a nil target gives the no-recipient failure; otherwise a target
  other than the expected recipient gives the wrong-recipient failure; the order is
  marked paid exactly when the value is at least the expected amount and the target is the
  expected recipient.
\<close>

theorem CheckPaymentStatus_checks:
  assumes "HexToHash lib txHash \<noteq> 0"
    and "TransactionByHash c (HexToHash lib txHash) = Inr (tx, False)"
    and "TransactionReceipt c (HexToHash lib txHash) = Inr receipt"
    and "ReceiptStatus receipt = ReceiptStatusSuccessful"
  shows "(Value tx < expectedWei \<longrightarrow>
            snd (CheckPaymentStatus lib c txHash expectedAddr expectedWei)
              = (StatusError, Some ''insufficient payment amount''))
       \<and> (expectedWei \<le> Value tx \<and> To tx = None \<longrightarrow>
            snd (CheckPaymentStatus lib c txHash expectedAddr expectedWei)
              = (StatusError, Some ''transaction is not a transfer to a valid address''))
       \<and> (expectedWei \<le> Value tx \<and> To tx \<noteq> None
            \<and> To tx \<noteq> Some (HexToAddress lib expectedAddr) \<longrightarrow>
            snd (CheckPaymentStatus lib c txHash expectedAddr expectedWei)
              = (StatusError, Some ''transaction sent to wrong recipient address''))
       \<and> (fst (snd (CheckPaymentStatus lib c txHash expectedAddr expectedWei)) = StatusPaid
            \<longleftrightarrow> expectedWei \<le> Value tx \<and> To tx = Some (HexToAddress lib expectedAddr))"
  using assms
  by (auto simp: CheckPaymentStatus_def Let_def StatusPaid_def StatusError_def)

text \<open>Paid is returned on no other path of the function.\<close>

lemma CheckPaymentStatus_paid_only:
  assumes "fst (snd (CheckPaymentStatus lib c txHash expectedAddr expectedWei)) = StatusPaid"
  shows "HexToHash lib txHash \<noteq> 0 \<and>
    (\<exists>tx receipt. TransactionByHash c (HexToHash lib txHash) = Inr (tx, False)
       \<and> TransactionReceipt c (HexToHash lib txHash) = Inr receipt
       \<and> ReceiptStatus receipt = ReceiptStatusSuccessful
       \<and> expectedWei \<le> Value tx \<and> To tx = Some (HexToAddress lib expectedAddr))"
  using assms
  by (auto simp: CheckPaymentStatus_def Let_def StatusPaid_def StatusError_def StatusPending_def
      split: sum.splits if_splits prod.splits)

theorem CheckPaymentStatus_checks_witness:
  "snd (CheckPaymentStatus demo_common
          (demo_client 50 \<lparr> Value = 999, To = Some 0xA11CE \<rparr> False 1) ''0x77'' ''0xA11CE'' 1000)
     = (StatusError, Some ''insufficient payment amount'')
   \<and> snd (CheckPaymentStatus demo_common
          (demo_client 50 \<lparr> Value = 1000, To = None \<rparr> False 1) ''0x77'' ''0xA11CE'' 1000)
     = (StatusError, Some ''transaction is not a transfer to a valid address'')
   \<and> snd (CheckPaymentStatus demo_common
          (demo_client 50 \<lparr> Value = 1000, To = Some 0xB0B \<rparr> False 1) ''0x77'' ''0xA11CE'' 1000)
     = (StatusError, Some ''transaction sent to wrong recipient address'')
   \<and> fst (snd (CheckPaymentStatus demo_common
          (demo_client 50 \<lparr> Value = 1000, To = Some 0xA11CE \<rparr> False 1) ''0x77'' ''0xA11CE'' 1000))
     = StatusPaid"
proof -
  let ?r = "\<lparr> ReceiptStatus = 1, ReceiptBlockNumber = 41, ReceiptGasUsed = 21000 \<rparr>"
  have a: "HexToHash demo_common ''0x77'' \<noteq> 0" by (simp add: demo_common_def)
  have b: "TransactionByHash (demo_client 50 tx False 1) (HexToHash demo_common ''0x77'')
             = Inr (tx, False)" for tx
    by (simp add: demo_common_def demo_client_def)
  have c: "TransactionReceipt (demo_client 50 tx False 1) (HexToHash demo_common ''0x77'')
             = Inr ?r" for tx
    by (simp add: demo_common_def demo_client_def)
  have d: "ReceiptStatus ?r = ReceiptStatusSuccessful"
    by (simp add: ReceiptStatusSuccessful_def)
  note T = CheckPaymentStatus_checks [OF a b c d, where expectedAddr = "''0xA11CE''"
      and expectedWei = 1000]
  have e: "HexToAddress demo_common ''0xA11CE'' = 0xA11CE" by (simp add: demo_common_def)
  have 1: "snd (CheckPaymentStatus demo_common
          (demo_client 50 \<lparr> Value = 999, To = Some 0xA11CE \<rparr> False 1) ''0x77'' ''0xA11CE'' 1000)
     = (StatusError, Some ''insufficient payment amount'')"
    using T [of "\<lparr> Value = 999, To = Some 0xA11CE \<rparr>"] by simp
  have 2: "snd (CheckPaymentStatus demo_common
          (demo_client 50 \<lparr> Value = 1000, To = None \<rparr> False 1) ''0x77'' ''0xA11CE'' 1000)
     = (StatusError, Some ''transaction is not a transfer to a valid address'')"
    using T [of "\<lparr> Value = 1000, To = None \<rparr>"] by simp
  have 3: "snd (CheckPaymentStatus demo_common
          (demo_client 50 \<lparr> Value = 1000, To = Some 0xB0B \<rparr> False 1) ''0x77'' ''0xA11CE'' 1000)
     = (StatusError, Some ''transaction sent to wrong recipient address'')"
    using T [of "\<lparr> Value = 1000, To = Some 0xB0B \<rparr>"] e by simp
  have 4: "fst (snd (CheckPaymentStatus demo_common
          (demo_client 50 \<lparr> Value = 1000, To = Some 0xA11CE \<rparr> False 1) ''0x77'' ''0xA11CE'' 1000))
     = StatusPaid"
    using T [of "\<lparr> Value = 1000, To = Some 0xA11CE \<rparr>"] e by simp
  show ?thesis using 1 2 3 4 by blast
qed

section \<open>Polling fallback: the cursor\<close>

lemma unat_succ_less:
  fixes a b :: uint64
  assumes "a < b"
  shows "unat (a + 1) = unat a + 1" and "a + 1 \<le> b"
proof -
  have ab: "unat a < unat b" using assms by (simp add: word_less_nat_alt)
  have "unat b < 2 ^ LENGTH(64)" by (rule unsigned_less)
  with ab have "unat a + unat (1 :: uint64) < 2 ^ LENGTH(64)" by simp
  then have "unat (a + 1) = unat a + unat (1 :: uint64)"
    by (simp only: unat_add_lem)
  then show u: "unat (a + 1) = unat a + 1" by simp
  show "a + 1 \<le> b" using u ab by (simp add: word_le_nat_alt)
qed

text \<open>
  One iteration either sends no log query and leaves the cursor where it was, or sends
  exactly one, for the range from the block after the cursor to the head, and then (unless
  the function returns) moves the cursor to that head.
\<close>

lemma poll_tick_cases:
  "(requests (poll_tick g lpb inp) \<in> {[], [RpcHeaderByNumber]}
      \<and> cursor (poll_tick g lpb inp) = lpb)
   \<or> (\<exists>q. requests (poll_tick g lpb inp) = [RpcHeaderByNumber, RpcFilterLogs q]
        \<and> unat (FromBlock q) = unat lpb + 1 \<and> FromBlock q \<le> ToBlock q
        \<and> lpb < ToBlock q
        \<and> cursor (poll_tick g lpb inp)
            = (if status (poll_tick g lpb inp) = Running then ToBlock q else lpb))"
proof (cases inp)
  case PollCtxDone
  then show ?thesis by (simp add: poll_tick_def)
next
  case (PollTick c cancel)
  show ?thesis
  proof (cases "HeaderByNumber c")
    case (Inl err)
    with PollTick show ?thesis by (simp add: poll_tick_def)
  next
    case (Inr number)
    show ?thesis
    proof (cases "big_uint64 number \<le> lpb")
      case True
      with PollTick Inr show ?thesis by (simp add: poll_tick_def)
    next
      case False
      then have lt: "lpb < big_uint64 number" by simp
      note s = unat_succ_less [OF lt]
      let ?q = "\<lparr> Addresses = [contractAddress g], FromBlock = lpb + 1,
                  ToBlock = big_uint64 number \<rparr>"
      have "requests (poll_tick g lpb inp) = [RpcHeaderByNumber, RpcFilterLogs ?q]
        \<and> cursor (poll_tick g lpb inp)
            = (if status (poll_tick g lpb inp) = Running then ToBlock ?q else lpb)"
        using PollTick Inr False
        by (simp add: poll_tick_def Let_def split: sum.splits)
      then show ?thesis using s lt by auto
    qed
  qed
qed

lemma poll_tick_monotone: "lpb \<le> cursor (poll_tick g lpb inp)"
  using poll_tick_cases [of g lpb inp] by (auto split: if_splits)

lemma pollEvents_sorted: "sorted (start # map cursor (pollEvents g start inputs))"
proof (induction inputs arbitrary: start)
  case Nil
  then show ?case by simp
next
  case (Cons inp rest)
  have m: "start \<le> cursor (poll_tick g start inp)" by (rule poll_tick_monotone)
  show ?case
  proof (cases "status (poll_tick g start inp) = Running")
    case True
    have "sorted (cursor (poll_tick g start inp)
            # map cursor (pollEvents g (cursor (poll_tick g start inp)) rest))"
      by (rule Cons.IH)
    with m True show ?thesis by (auto simp: Let_def)
  next
    case False
    with m show ?thesis by (simp add: Let_def)
  qed
qed

lemma pollEvents_chained: "chained start (run_queries (pollEvents g start inputs))"
proof (induction inputs arbitrary: start)
  case Nil
  then show ?case by (simp add: run_queries_def)
next
  case (Cons inp rest)
  let ?r = "poll_tick g start inp"
  from poll_tick_cases [of g start inp] show ?case
  proof
    assume a: "requests ?r \<in> {[], [RpcHeaderByNumber]} \<and> cursor ?r = start"
    then have q: "rpc_queries (requests ?r) = []" by auto
    show ?thesis
    proof (cases "status ?r = Running")
      case True
      with a q Cons.IH [of start] show ?thesis by (simp add: run_queries_def Let_def)
    next
      case False
      with q show ?thesis by (simp add: run_queries_def Let_def)
    qed
  next
    assume "\<exists>q. requests ?r = [RpcHeaderByNumber, RpcFilterLogs q]
        \<and> unat (FromBlock q) = unat start + 1 \<and> FromBlock q \<le> ToBlock q
        \<and> start < ToBlock q
        \<and> cursor ?r = (if status ?r = Running then ToBlock q else start)"
    then obtain q where rq: "requests ?r = [RpcHeaderByNumber, RpcFilterLogs q]"
      and f: "unat (FromBlock q) = unat start + 1" and le: "FromBlock q \<le> ToBlock q"
      and c: "cursor ?r = (if status ?r = Running then ToBlock q else start)" by blast
    have q: "rpc_queries (requests ?r) = [q]" using rq by simp
    show ?thesis
    proof (cases "status ?r = Running")
      case True
      with c have "cursor ?r = ToBlock q" by simp
      with True q f le Cons.IH [of "ToBlock q"] show ?thesis
        by (simp add: run_queries_def Let_def)
    next
      case False
      with q f le show ?thesis by (simp add: run_queries_def Let_def)
    qed
  qed
qed

lemma chained_ascending:
  "chained lpb qs \<Longrightarrow> q \<in> set qs \<Longrightarrow> lpb < FromBlock q"
proof (induction qs arbitrary: lpb)
  case Nil
  then show ?case by simp
next
  case (Cons a qs)
  have 1: "lpb < FromBlock a" using Cons.prems(1) by (simp add: word_less_nat_alt)
  show ?case
  proof (cases "q = a")
    case True
    with 1 show ?thesis by simp
  next
    case False
    with Cons.prems have "q \<in> set qs" and "chained (ToBlock a) qs" by auto
    then have "ToBlock a < FromBlock q" using Cons.IH by blast
    moreover have "FromBlock a \<le> ToBlock a" using Cons.prems(1) by simp
    ultimately show ?thesis using 1 by simp
  qed
qed

lemma poll_tick_fetch_error:
  assumes "HeaderByNumber c = Inr number" and "lpb < big_uint64 number"
    and "FilterLogs c \<lparr> Addresses = [contractAddress g], FromBlock = lpb + 1,
                        ToBlock = big_uint64 number \<rparr> = Inl err"
  shows "poll_tick g lpb (PollTick c cancel) =
     \<lparr> cursor = big_uint64 number, status = Running,
       requests = [RpcHeaderByNumber, RpcFilterLogs \<lparr> Addresses = [contractAddress g],
          FromBlock = lpb + 1, ToBlock = big_uint64 number \<rparr>], delivered = [] \<rparr>"
  using assms by (simp add: poll_tick_def Let_def not_le [symmetric])

text \<open>
  C9. In every run of the polling loop from a start block: the values of the
  last-processed-block cursor never decrease; every log query starts at the block after
  the cursor (without wrap-around) and the queries continue one another, each starting at
  the block after the end of the one before, so every query lies strictly above the
  cursor it was sent from and no block already advanced past is fetched again; and when
  the log fetch fails the cursor is still set to the current head, the loop goes on and
  nothing is delivered for that range.
\<close>

theorem pollEvents_cursor:
  "sorted (start # map cursor (pollEvents g start inputs))
   \<and> chained start (run_queries (pollEvents g start inputs))
   \<and> (\<forall>q \<in> set (run_queries (pollEvents g start inputs)). start < FromBlock q)
   \<and> (HeaderByNumber c = Inr number \<and> lpb < big_uint64 number
        \<and> FilterLogs c \<lparr> Addresses = [contractAddress g], FromBlock = lpb + 1,
                          ToBlock = big_uint64 number \<rparr> = Inl err \<longrightarrow>
      poll_tick g lpb (PollTick c cancel) =
        \<lparr> cursor = big_uint64 number, status = Running,
          requests = [RpcHeaderByNumber, RpcFilterLogs \<lparr> Addresses = [contractAddress g],
             FromBlock = lpb + 1, ToBlock = big_uint64 number \<rparr>], delivered = [] \<rparr>)"
  using pollEvents_sorted [of start g inputs] pollEvents_chained [of start g inputs]
    chained_ascending [OF pollEvents_chained [of start g inputs]]
    poll_tick_fetch_error [of c number lpb g err cancel]
  by blast

theorem pollEvents_cursor_witness:
  "map cursor (pollEvents demo_gateway 100
      [PollTick (poll_client 105 (Inl ''timeout'')) None,
       PollTick (poll_client 105 (Inr [])) None,
       PollTick (poll_client 110 (Inr [])) None,
       PollCtxDone]) = [105, 105, 110, 110]
   \<and> sorted (100 # map cursor (pollEvents demo_gateway 100
      [PollTick (poll_client 105 (Inl ''timeout'')) None,
       PollTick (poll_client 105 (Inr [])) None,
       PollTick (poll_client 110 (Inr [])) None,
       PollCtxDone]))
   \<and> map (\<lambda>q. (FromBlock q, ToBlock q)) (run_queries (pollEvents demo_gateway 100
      [PollTick (poll_client 105 (Inl ''timeout'')) None,
       PollTick (poll_client 105 (Inr [])) None,
       PollTick (poll_client 110 (Inr [])) None,
       PollCtxDone])) = [(101, 105), (106, 110)]
   \<and> poll_tick demo_gateway 100 (PollTick (poll_client 105 (Inl ''timeout'')) None) =
        \<lparr> cursor = 105, status = Running,
          requests = [RpcHeaderByNumber, RpcFilterLogs \<lparr> Addresses = [0xC0FFEE],
             FromBlock = 101, ToBlock = 105 \<rparr>], delivered = [] \<rparr>"
proof -
  let ?inputs = "[PollTick (poll_client 105 (Inl ''timeout'')) None,
       PollTick (poll_client 105 (Inr [])) None,
       PollTick (poll_client 110 (Inr [])) None,
       PollCtxDone]"
  let ?c = "poll_client 105 (Inl ''timeout'')"
  note T = pollEvents_cursor [of 100 demo_gateway ?inputs ?c 105 100 "''timeout''" None]
  have h: "HeaderByNumber ?c = Inr 105 \<and> (100 :: uint64) < big_uint64 105
        \<and> FilterLogs ?c \<lparr> Addresses = [contractAddress demo_gateway], FromBlock = 100 + 1,
                          ToBlock = big_uint64 105 \<rparr> = Inl ''timeout''"
    by (simp add: poll_client_def big_uint64_def)
  have 1: "sorted (100 # map cursor (pollEvents demo_gateway 100 ?inputs))"
    using T by blast
  have 2: "poll_tick demo_gateway 100 (PollTick ?c None) =
        \<lparr> cursor = 105, status = Running,
          requests = [RpcHeaderByNumber, RpcFilterLogs \<lparr> Addresses = [0xC0FFEE],
             FromBlock = 101, ToBlock = 105 \<rparr>], delivered = [] \<rparr>"
    using T h by (simp add: big_uint64_def demo_gateway_def)
  have 3: "map cursor (pollEvents demo_gateway 100 ?inputs) = [105, 105, 110, 110]"
    by (simp add: poll_tick_def poll_client_def big_uint64_def Let_def scan_logs_def
        List.map_filter_def)
  have 4: "map (\<lambda>q. (FromBlock q, ToBlock q)) (run_queries (pollEvents demo_gateway 100 ?inputs))
      = [(101, 105), (106, 110)]"
    by (simp add: poll_tick_def poll_client_def big_uint64_def Let_def scan_logs_def
        List.map_filter_def run_queries_def)
  show ?thesis using 1 2 3 4 by blast
qed

section \<open>Notifier: attempts and retries\<close>

declare notify_loop.simps [simp del]

lemma retryable_not_final:
  "is_5xx_or_transport r \<Longrightarrow> \<not> is_2xx r \<and> \<not> is_4xx r"
  by (cases r) (auto simp: is_5xx_or_transport_def is_2xx_def is_4xx_def)

lemma notify_loop_exhausted:
  "\<not> i < m \<Longrightarrow> notify_loop b u p m i l = ([], Some (FailedAfterRetries m l))"
  by (subst notify_loop.simps) simp

lemma notify_loop_2xx:
  "i < m \<Longrightarrow> is_2xx (b i) \<Longrightarrow>
   notify_loop b u p m i l = ((if i > 0 then [SleepSeconds i] else []) @ [HttpPost u p], None)"
  by (subst notify_loop.simps) (cases "b i"; simp add: is_2xx_def Let_def)

lemma notify_loop_4xx:
  "i < m \<Longrightarrow> is_4xx (b i) \<Longrightarrow>
   notify_loop b u p m i l =
     ((if i > 0 then [SleepSeconds i] else []) @ [HttpPost u p], Some (reply_error (b i)))"
  by (subst notify_loop.simps) (cases "b i"; simp add: is_4xx_def reply_error_def Let_def)

lemma notify_loop_retry:
  "i < m \<Longrightarrow> \<not> is_2xx (b i) \<Longrightarrow> \<not> is_4xx (b i) \<Longrightarrow>
   notify_loop b u p m i l =
     ((if i > 0 then [SleepSeconds i] else []) @ [HttpPost u p]
        @ fst (notify_loop b u p m (i + 1) (Some (reply_error (b i)))),
      snd (notify_loop b u p m (i + 1) (Some (reply_error (b i)))))"
  by (subst notify_loop.simps)
    (cases "b i"; auto simp: is_2xx_def is_4xx_def reply_error_def Let_def case_prod_beta)

text \<open>
  C3. With \<open>url\<close> the backend URL of the endpoint: the notifier stops at the first 2xx
  response and returns nil, whether it comes at the first, second or third attempt; a 4xx
  response ends the sequence with that status as the error, after exactly one POST when it
  is the first response; when the three attempts all end in a 5xx response or a transport
  error the notifier has sent exactly three POSTs, slept 1 and 2 seconds between them, and
  returns the terminal error "failed after 3 retries".
\<close>

theorem notifyBackend_attempts:
  fixes backend :: "nat \<Rightarrow> http_reply"
  defines "r \<equiv> is_5xx_or_transport"
  shows
    "(is_2xx (backend 0) \<longrightarrow>
        notifyBackend base backend endpoint body = ([HttpPost (base @ endpoint) body], None))
   \<and> (r (backend 0) \<and> is_2xx (backend 1) \<longrightarrow>
        notifyBackend base backend endpoint body =
          ([HttpPost (base @ endpoint) body, SleepSeconds 1,
            HttpPost (base @ endpoint) body], None))
   \<and> (r (backend 0) \<and> r (backend 1) \<and> is_2xx (backend 2) \<longrightarrow>
        notifyBackend base backend endpoint body =
          ([HttpPost (base @ endpoint) body, SleepSeconds 1,
            HttpPost (base @ endpoint) body, SleepSeconds 2,
            HttpPost (base @ endpoint) body], None))
   \<and> (is_4xx (backend 0) \<longrightarrow>
        notifyBackend base backend endpoint body =
          ([HttpPost (base @ endpoint) body], Some (reply_error (backend 0))))
   \<and> (r (backend 0) \<and> is_4xx (backend 1) \<longrightarrow>
        notifyBackend base backend endpoint body =
          ([HttpPost (base @ endpoint) body, SleepSeconds 1,
            HttpPost (base @ endpoint) body], Some (reply_error (backend 1))))
   \<and> (r (backend 0) \<and> r (backend 1) \<and> r (backend 2) \<longrightarrow>
        notifyBackend base backend endpoint body =
          ([HttpPost (base @ endpoint) body, SleepSeconds 1,
            HttpPost (base @ endpoint) body, SleepSeconds 2,
            HttpPost (base @ endpoint) body],
           Some (FailedAfterRetries 3 (Some (reply_error (backend 2)))))
      \<and> length (posts (fst (notifyBackend base backend endpoint body))) = 3)"
proof -
  have one: "Suc 0 < 3" and two: "2 < (3::nat)" and zero: "0 < (3::nat)" and three: "\<not> 3 < (3::nat)"
    by simp_all
  note R = retryable_not_final
  have a: "is_2xx (backend 0) \<longrightarrow>
        notifyBackend base backend endpoint body = ([HttpPost (base @ endpoint) body], None)"
    by (simp add: notifyBackend_def notify_loop_2xx)
  have b: "r (backend 0) \<and> is_2xx (backend 1) \<longrightarrow>
        notifyBackend base backend endpoint body =
          ([HttpPost (base @ endpoint) body, SleepSeconds 1,
            HttpPost (base @ endpoint) body], None)"
    using R [of "backend 0"]
    by (simp add: r_def notifyBackend_def notify_loop_retry notify_loop_2xx)
  have c: "r (backend 0) \<and> r (backend 1) \<and> is_2xx (backend 2) \<longrightarrow>
        notifyBackend base backend endpoint body =
          ([HttpPost (base @ endpoint) body, SleepSeconds 1,
            HttpPost (base @ endpoint) body, SleepSeconds 2,
            HttpPost (base @ endpoint) body], None)"
    using R [of "backend 0"] R [of "backend 1"] R [of "backend (Suc 0)"]
    by (simp add: r_def notifyBackend_def notify_loop_retry notify_loop_2xx numeral_2_eq_2)
  have d: "is_4xx (backend 0) \<longrightarrow>
        notifyBackend base backend endpoint body =
          ([HttpPost (base @ endpoint) body], Some (reply_error (backend 0)))"
    by (simp add: notifyBackend_def notify_loop_4xx)
  have e: "r (backend 0) \<and> is_4xx (backend 1) \<longrightarrow>
        notifyBackend base backend endpoint body =
          ([HttpPost (base @ endpoint) body, SleepSeconds 1,
            HttpPost (base @ endpoint) body], Some (reply_error (backend 1)))"
    using R [of "backend 0"]
    by (simp add: r_def notifyBackend_def notify_loop_retry notify_loop_4xx)
  have f: "r (backend 0) \<and> r (backend 1) \<and> r (backend 2) \<longrightarrow>
        notifyBackend base backend endpoint body =
          ([HttpPost (base @ endpoint) body, SleepSeconds 1,
            HttpPost (base @ endpoint) body, SleepSeconds 2,
            HttpPost (base @ endpoint) body],
           Some (FailedAfterRetries 3 (Some (reply_error (backend 2)))))
      \<and> length (posts (fst (notifyBackend base backend endpoint body))) = 3"
    using R [of "backend 0"] R [of "backend 1"] R [of "backend (Suc 0)"] R [of "backend 2"]
      R [of "backend (Suc (Suc 0))"]
    by (simp add: r_def notifyBackend_def notify_loop_retry notify_loop_exhausted
        numeral_2_eq_2 numeral_3_eq_3)
  show ?thesis using a b c d e f by blast
qed

theorem notifyBackend_attempts_witness:
  "notifyBackend ''http://backend'' (\<lambda>i. HttpStatus 404) ''/api/v1/blockchain/item-listed'' []
     = ([HttpPost ''http://backend/api/v1/blockchain/item-listed'' []],
        Some (BackendStatus 404))
   \<and> notifyBackend ''http://backend'' (\<lambda>i. HttpStatus 503) ''/api/v1/blockchain/item-listed'' []
     = ([HttpPost ''http://backend/api/v1/blockchain/item-listed'' [], SleepSeconds 1,
         HttpPost ''http://backend/api/v1/blockchain/item-listed'' [], SleepSeconds 2,
         HttpPost ''http://backend/api/v1/blockchain/item-listed'' []],
        Some (FailedAfterRetries 3 (Some (BackendStatus 503))))
   \<and> notifyBackend ''http://backend'' (\<lambda>i. if i = 0 then TransportError else HttpStatus 201)
        ''/api/v1/blockchain/item-listed'' []
     = ([HttpPost ''http://backend/api/v1/blockchain/item-listed'' [], SleepSeconds 1,
         HttpPost ''http://backend/api/v1/blockchain/item-listed'' []], None)"
proof -
  have 1: "notifyBackend ''http://backend'' (\<lambda>i. HttpStatus 404)
             ''/api/v1/blockchain/item-listed'' []
     = ([HttpPost ''http://backend/api/v1/blockchain/item-listed'' []],
        Some (BackendStatus 404))"
    using notifyBackend_attempts [of "\<lambda>i. HttpStatus 404" "''http://backend''"
        "''/api/v1/blockchain/item-listed''" "[]"]
    by (simp add: is_4xx_def reply_error_def)
  have 2: "notifyBackend ''http://backend'' (\<lambda>i. HttpStatus 503)
             ''/api/v1/blockchain/item-listed'' []
     = ([HttpPost ''http://backend/api/v1/blockchain/item-listed'' [], SleepSeconds 1,
         HttpPost ''http://backend/api/v1/blockchain/item-listed'' [], SleepSeconds 2,
         HttpPost ''http://backend/api/v1/blockchain/item-listed'' []],
        Some (FailedAfterRetries 3 (Some (BackendStatus 503))))"
    using notifyBackend_attempts [of "\<lambda>i. HttpStatus 503" "''http://backend''"
        "''/api/v1/blockchain/item-listed''" "[]"]
    by (simp add: is_5xx_or_transport_def reply_error_def)
  have 3: "notifyBackend ''http://backend''
             (\<lambda>i. if i = 0 then TransportError else HttpStatus 201)
             ''/api/v1/blockchain/item-listed'' []
     = ([HttpPost ''http://backend/api/v1/blockchain/item-listed'' [], SleepSeconds 1,
         HttpPost ''http://backend/api/v1/blockchain/item-listed'' []], None)"
    using notifyBackend_attempts [of "\<lambda>i. if i = 0 then TransportError else HttpStatus 201"
        "''http://backend''" "''/api/v1/blockchain/item-listed''" "[]"]
    by (simp add: is_5xx_or_transport_def is_2xx_def)
  show ?thesis using 1 2 3 by blast
qed

text \<open>
  The first revision of the notifier (src/unnamed/part_004) sends one POST whatever the
  backend answers and reports success for every response, 4xx and 5xx included.
\<close>

lemma notifyBackend_part_004_single_attempt:
  "length (posts (fst (notifyBackend_part_004 base backend endpoint body))) = 1
   \<and> (backend 0 = HttpStatus code \<longrightarrow>
        snd (notifyBackend_part_004 base backend endpoint body) = None)"
  by (cases "backend 0") (simp_all add: notifyBackend_part_004_def)

section \<open>Orchestrator: reconnect backoff\<close>

lemma int64_id: "- (2 ^ 63) \<le> x \<Longrightarrow> x < 2 ^ 63 \<Longrightarrow> int64 x = x"
  by (simp add: int64_def signed_take_bit_int_eq_self)

text \<open>Below the ceiling the 64-bit product never wraps.\<close>

lemma next_delay_capped:
  assumes "0 < d" and "d \<le> maxRetryDelay"
  shows "next_delay d = min (d * 2) maxRetryDelay"
proof -
  have "d \<le> 60000000000" using assms(2) by (simp add: maxRetryDelay_def Second_def)
  then have "- (2 ^ 63) \<le> d * 2" and "d * 2 < 2 ^ 63" using assms(1) by simp_all
  then have "int64 (d * 2) = d * 2" by (rule int64_id)
  then show ?thesis by (simp add: next_delay_def min_duration_def min_def)
qed

lemma maxRetryDelay_pos: "0 < maxRetryDelay"
  by (simp add: maxRetryDelay_def Second_def)

lemma capped_double:
  fixes d M :: int
  assumes "0 < d" and "0 < M"
  shows "min (min (d * 2) M * 2 ^ k) M = min (d * 2 ^ Suc k) M"
proof (cases "d * 2 \<le> M")
  case True
  then show ?thesis by (simp add: mult.assoc)
next
  case False
  then have big: "M < d * 2" by simp
  have p: "(1::int) \<le> 2 ^ k" by simp
  have "M * 1 \<le> M * 2 ^ k" using assms(2) p by (intro mult_left_mono) simp_all
  then have l: "min (min (d * 2) M * 2 ^ k) M = M" using big by (simp add: min_def)
  have "(d * 2) * 1 \<le> (d * 2) * 2 ^ k" using assms(1) p by (intro mult_left_mono) simp_all
  then have "M < d * 2 ^ Suc k" using big by (simp add: mult.assoc)
  then have "min (d * 2 ^ Suc k) M = M" by simp
  with l show ?thesis by simp
qed

text \<open>
  \<open>N\<close> failed subscriptions in a row, from any delay \<open>d\<close> between zero and the ceiling:
  the waits are \<open>d\<close>, \<open>2d\<close>, \<open>4d\<close>, ... capped at the ceiling, and so is the delay
  afterwards.
\<close>

lemma failures_from:
  assumes "0 < d" and "d \<le> maxRetryDelay"
  shows "realtime_loop d (replicate N (RoundSubscribeFailed False)) =
     (concat (map (\<lambda>k. [Subscribe, Wait (min (d * 2 ^ k) maxRetryDelay)]) [0..<N]),
      min (d * 2 ^ N) maxRetryDelay, Looping)"
  using assms
proof (induction N arbitrary: d)
  case 0
  then show ?case by simp
next
  case (Suc N)
  let ?d' = "min (d * 2) maxRetryDelay"
  have nd: "next_delay d = ?d'" using Suc.prems by (rule next_delay_capped)
  have pos: "0 < ?d'" using Suc.prems(1) maxRetryDelay_pos by simp
  have le: "?d' \<le> maxRetryDelay" by simp
  note IH = Suc.IH [OF pos le]
  have c: "min (?d' * 2 ^ k) maxRetryDelay = min (d * 2 ^ Suc k) maxRetryDelay" for k
    using capped_double [OF Suc.prems(1) maxRetryDelay_pos] .
  have first: "min (d * 2 ^ 0) maxRetryDelay = d" using Suc.prems(2) by simp
  have "realtime_loop d (replicate (Suc N) (RoundSubscribeFailed False)) =
      (Subscribe # Wait d #
         concat (map (\<lambda>k. [Subscribe, Wait (min (d * 2 ^ Suc k) maxRetryDelay)]) [0..<N]),
       min (d * 2 ^ Suc N) maxRetryDelay, Looping)"
    using IH by (simp add: nd c del: power_Suc)
  also have "Subscribe # Wait d #
         concat (map (\<lambda>k. [Subscribe, Wait (min (d * 2 ^ Suc k) maxRetryDelay)]) [0..<N])
      = concat (map (\<lambda>k. [Subscribe, Wait (min (d * 2 ^ k) maxRetryDelay)]) [0..<Suc N])"
    using first by (simp add: map_upt_Suc del: upt_Suc power_Suc)
  finally show ?case .
qed

lemma subscribed_round:
  "realtime_loop d (RoundSubscribed events False # rest) =
     (Subscribe # map Handle events @ Wait (5 * Second) # fst (realtime_loop (10 * Second) rest),
      snd (realtime_loop (10 * Second) rest))"
proof -
  have "0 < 5 * Second" and "5 * Second \<le> maxRetryDelay"
    by (simp_all add: Second_def maxRetryDelay_def)
  then have "next_delay (5 * Second) = min (5 * Second * 2) maxRetryDelay"
    by (rule next_delay_capped)
  then have "next_delay (5 * Second) = 10 * Second"
    by (simp add: Second_def maxRetryDelay_def)
  then show ?thesis by (simp add: Let_def case_prod_beta)
qed

lemma loop_starts_with_subscribe:
  "r \<noteq> RoundCtxDone \<Longrightarrow> \<exists>es. fst (realtime_loop d (r # rest)) = Subscribe # es"
  by (cases r) (auto simp: Let_def case_prod_beta)

lemma waits_handled: "waits (map Handle events @ es) = waits es"
  by (induction events) simp_all

lemma waits_failures: "waits (concat (map (\<lambda>k. [Subscribe, Wait (f k)]) ks)) = map f ks"
  by (induction ks) simp_all

text \<open>
  After a stream that ended, \<open>N\<close> failed subscriptions in a row: the waits are 5 s for the
  ended stream and then 10 s, 20 s, ... capped at 60 s.
\<close>

lemma waits_after_stream:
  "waits (fst (realtime_loop d
      (RoundSubscribed events False # replicate N (RoundSubscribeFailed False))))
   = map (\<lambda>k. min (5 * Second * 2 ^ k) (60 * Second)) [0..<Suc N]"
proof -
  have a: "0 < 10 * Second" and b: "10 * Second \<le> maxRetryDelay"
    by (simp_all add: Second_def maxRetryDelay_def)
  have e: "min (10 * Second * 2 ^ k) maxRetryDelay = min (5 * Second * 2 ^ Suc k) (60 * Second)"
    for k by (simp add: maxRetryDelay_def)
  have f: "min (5 * Second * 2 ^ 0) (60 * Second) = 5 * Second" by (simp add: Second_def)
  have "waits (fst (realtime_loop d
      (RoundSubscribed events False # replicate N (RoundSubscribeFailed False))))
    = 5 * Second # map (\<lambda>k. min (10 * Second * 2 ^ k) maxRetryDelay) [0..<N]"
    by (simp add: subscribed_round failures_from [OF a b] waits_handled waits_failures
        del: upt_Suc realtime_loop.simps)
  also have "\<dots> = map (\<lambda>k. min (5 * Second * 2 ^ k) (60 * Second)) [0..<Suc N]"
    using f by (simp add: e map_upt_Suc del: upt_Suc power_Suc)
  finally show ?thesis .
qed

text \<open>
  C1. The reconnect loop of the orchestrator, with floor 5 s and ceiling 60 s. After \<open>N\<close>
  consecutive failed subscriptions from the start the retry delay is
  \<open>min (floor * 2^N) ceiling\<close>, and the waits before the retries were
  \<open>min (floor * 2^k) ceiling\<close> for \<open>k < N\<close>. A successful subscription sets the delay to
  the floor whatever it was before: when its event stream ends (and the context is not
  cancelled) the loop waits the floor and goes round again, which, unless the context is
  done, starts with a new subscription. Counting from an ended stream, the wait that
  follows the \<open>k\<close>-th consecutive failed reconnect is \<open>min (floor * 2^k) ceiling\<close>.
\<close>

theorem startRealtimeListener_backoff:
  "startRealtimeListener (replicate N (RoundSubscribeFailed False)) =
     (concat (map (\<lambda>k. [Subscribe, Wait (min (5 * Second * 2 ^ k) (60 * Second))]) [0..<N]),
      min (5 * Second * 2 ^ N) (60 * Second), Looping)
   \<and> realtime_loop d (RoundSubscribed events False # rest) =
       (Subscribe # map Handle events @ Wait (5 * Second)
          # fst (realtime_loop (10 * Second) rest),
        snd (realtime_loop (10 * Second) rest))
   \<and> (r \<noteq> RoundCtxDone \<longrightarrow>
        (\<exists>es. fst (realtime_loop d (RoundSubscribed events False # r # rest)) =
           Subscribe # map Handle events @ Wait (5 * Second) # Subscribe # es))
   \<and> waits (fst (realtime_loop d
        (RoundSubscribed events False # replicate N (RoundSubscribeFailed False))))
      = map (\<lambda>k. min (5 * Second * 2 ^ k) (60 * Second)) [0..<Suc N]"
proof -
  have a: "0 < 5 * Second" and b: "5 * Second \<le> maxRetryDelay"
    by (simp_all add: Second_def maxRetryDelay_def)
  have 1: "startRealtimeListener (replicate N (RoundSubscribeFailed False)) =
     (concat (map (\<lambda>k. [Subscribe, Wait (min (5 * Second * 2 ^ k) (60 * Second))]) [0..<N]),
      min (5 * Second * 2 ^ N) (60 * Second), Looping)"
    using failures_from [OF a b, of N]
    by (simp add: startRealtimeListener_def maxRetryDelay_def)
  have 3: "r \<noteq> RoundCtxDone \<longrightarrow>
        (\<exists>es. fst (realtime_loop d (RoundSubscribed events False # r # rest)) =
           Subscribe # map Handle events @ Wait (5 * Second) # Subscribe # es)"
    using loop_starts_with_subscribe [of r "10 * Second" rest]
    by (auto simp: subscribed_round simp del: realtime_loop.simps)
  show ?thesis
    using 1 3 subscribed_round [of d events rest] waits_after_stream [of d events N]
    by blast
qed

theorem startRealtimeListener_backoff_witness:
  "snd (startRealtimeListener (replicate 3 (RoundSubscribeFailed False)))
     = (40000000000, Looping)
   \<and> waits (fst (startRealtimeListener (replicate 5 (RoundSubscribeFailed False))))
     = [5000000000, 10000000000, 20000000000, 40000000000, 60000000000]
   \<and> (\<exists>es. fst (realtime_loop 60000000000
              [RoundSubscribed [] False, RoundSubscribeFailed False]) =
           Subscribe # Wait 5000000000 # Subscribe # es)"
proof -
  note T = startRealtimeListener_backoff
  have 1: "snd (startRealtimeListener (replicate 3 (RoundSubscribeFailed False)))
     = (40000000000, Looping)"
    using T [of 3 0 "[]" "[]" RoundCtxDone] by (simp add: Second_def)
  have 2: "waits (fst (startRealtimeListener (replicate 5 (RoundSubscribeFailed False))))
     = [5000000000, 10000000000, 20000000000, 40000000000, 60000000000]"
    using T [of 5 0 "[]" "[]" RoundCtxDone]
    by (simp add: Second_def waits_failures del: upt_Suc replicate_Suc)
      (simp add: upt_rec)
  have h: "RoundSubscribeFailed False \<noteq> RoundCtxDone" by simp
  have 3: "\<exists>es. fst (realtime_loop 60000000000
              [RoundSubscribed [] False, RoundSubscribeFailed False]) =
           Subscribe # Wait 5000000000 # Subscribe # es"
    using T [of 0 60000000000 "[]" "[]" "RoundSubscribeFailed False"] h
    by (simp add: Second_def)
  show ?thesis using 1 2 3 by blast
qed

text \<open>
  The listener of the earlier revisions (src/main.go lines 193-246, src/unnamed/part_005
  lines 41-81) subscribes once and has no reconnect loop; it is not modelled further.
\<close>

section \<open>Notifier: endpoint and payload of each event kind\<close>

declare nat_dec.simps [simp del]

lemma nat_dec_small: "n < 10 \<Longrightarrow> nat_dec n = [digit_char n]"
  by (subst nat_dec.simps) simp

lemma nat_dec_large:
  "\<not> n < 10 \<Longrightarrow> nat_dec n = nat_dec (n div 10) @ [digit_char (n mod 10)]"
  by (subst nat_dec.simps) simp

lemma digit_char_is_digit: "d < 10 \<Longrightarrow> is_digit (digit_char d)"
proof -
  assume "d < 10"
  then have "d \<in> {0, 1, 2, 3, 4, 5, 6, 7, 8, 9}" by auto
  then show ?thesis by (auto simp: is_digit_def digit_char_def)
qed

lemma nat_dec_digits: "nat_dec n \<noteq> [] \<and> list_all is_digit (nat_dec n)"
proof (induction n rule: nat_dec.induct)
  case (1 n)
  show ?case
  proof (cases "n < 10")
    case True
    then show ?thesis by (simp add: nat_dec_small digit_char_is_digit)
  next
    case False
    have "n mod 10 < 10" by simp
    then have "is_digit (digit_char (n mod 10))" by (rule digit_char_is_digit)
    with False 1 show ?thesis by (simp add: nat_dec_large)
  qed
qed

lemma minus_not_digit: "\<not> is_digit CHR ''-''"
  by (simp add: is_digit_def)

text \<open>The rendering of a price that is present is a decimal numeral.\<close>

lemma is_decimal_int_dec: "is_decimal (int_dec i)"
proof (cases "i < 0")
  case True
  then show ?thesis
    using nat_dec_digits [of "nat (- i)"] by (simp add: is_decimal_def int_dec_def)
next
  case False
  obtain ch cs where s: "nat_dec (nat i) = ch # cs"
    using nat_dec_digits [of "nat i"] by (cases "nat_dec (nat i)") auto
  then have d: "is_digit ch" "list_all is_digit cs"
    using nat_dec_digits [of "nat i"] by auto
  then have "ch \<noteq> CHR ''-''" using minus_not_digit by auto
  with False s d show ?thesis by (simp add: is_decimal_def int_dec_def)
qed

lemma int_dec_example: "int_dec 1000000000000000 = ''1000000000000000''"
  by (simp add: int_dec_def nat_dec_small nat_dec_large digit_char_def)

text \<open>
  Each of the five kinds has one fixed path and one fixed set of payload fields, and the
  field \<open>price_wei\<close>, where the kind has it, is the JSON string \<open>Price.String()\<close>.
\<close>

lemma event_request_paths:
  "(Type ev = EventItemListed \<longrightarrow>
      (\<exists>body. event_request ev = Some (''/api/v1/blockchain/item-listed'', body)
         \<and> map fst body = [''chain_item_id'', ''token_id'', ''title'', ''price_wei'',
              ''explanation'', ''image_url'', ''uid'', ''category'', ''seller'',
              ''created_at'', ''tx_hash'']
         \<and> map_of body ''price_wei'' = Some (JString (bigIntString (Price ev)))))
   \<and> (Type ev = EventItemPurchased \<longrightarrow>
      (\<exists>body. event_request ev = Some (''/api/v1/blockchain/item-purchased'', body)
         \<and> map fst body = [''chain_item_id'', ''buyer'', ''price_wei'', ''token_id'', ''tx_hash'']
         \<and> map_of body ''price_wei'' = Some (JString (bigIntString (Price ev)))))
   \<and> (Type ev = EventItemUpdated \<longrightarrow>
      (\<exists>body. event_request ev = Some (''/api/v1/blockchain/item-updated'', body)
         \<and> map fst body = [''chain_item_id'', ''title'', ''price_wei'', ''explanation'',
              ''image_url'', ''category'', ''updated_at'', ''tx_hash'']
         \<and> map_of body ''price_wei'' = Some (JString (bigIntString (Price ev)))))
   \<and> (Type ev = EventItemCancelled \<longrightarrow>
      (\<exists>body. event_request ev = Some (''/api/v1/blockchain/item-cancelled'', body)
         \<and> map fst body = [''chain_item_id'', ''seller'', ''tx_hash'']))
   \<and> (Type ev = EventReceiptConfirmed \<longrightarrow>
      (\<exists>body. event_request ev = Some (''/api/v1/blockchain/receipt-confirmed'', body)
         \<and> map fst body = [''chain_item_id'', ''buyer'', ''seller'', ''price_wei'', ''tx_hash'']
         \<and> map_of body ''price_wei'' = Some (JString (bigIntString (Price ev)))))"
  by (simp add: event_request_def EventItemListed_def EventItemPurchased_def
      EventItemUpdated_def EventItemCancelled_def EventReceiptConfirmed_def)

lemma price_wei_decimal_when_present:
  "Price ev = Some p \<Longrightarrow> bigIntString (Price ev) = int_dec p \<and> is_decimal (bigIntString (Price ev))"
  by (simp add: bigIntString_def is_decimal_int_dec)

text \<open>
  An ItemListed event with item 7, token 3 and price 1000000000000000, acknowledged by
  the backend with 200: one POST, to the item-listed path, with the price as the string
  of its decimal digits.
\<close>

lemma handleEvent_item_listed_example:
  "handleEvent ''http://backend'' (\<lambda>i. HttpStatus 200)
     (zero_event \<lparr> Type := EventItemListed, TxHash := ''0x77'', BlockNo := 12, ItemId := 7,
        TokenId := 3, Title := ''Widget'', Price := Some 1000000000000000,
        Seller := ''0xABC'' \<rparr>)
   = [HttpPost ''http://backend/api/v1/blockchain/item-listed''
        [(''chain_item_id'', JNumber 7), (''token_id'', JNumber 3),
         (''title'', JString ''Widget''), (''price_wei'', JString ''1000000000000000''),
         (''explanation'', JString ''''), (''image_url'', JString ''''),
         (''uid'', JString ''''), (''category'', JString ''''),
         (''seller'', JString ''0xABC''), (''created_at'', JNumber 0),
         (''tx_hash'', JString ''0x77'')]]"
  by (simp add: handleEvent_def event_request_def zero_event_def notifyBackend_def
      notify_loop_2xx is_2xx_def bigIntString_def int_dec_example)

text \<open>
  C8. Every decoded event of one of the five kinds goes to one fixed path with the fields
  of its kind, and the price field is the decimal string of the event's price. The paths
  and fields are as claimed (\<open>event_request_paths\<close>), and a price that is present is
  rendered in decimal (\<open>price_wei_decimal_when_present\<close>). The price part fails for
  an event without a price: for a log of the configured contract with the ItemListed
  signature, four topics and a payload that the ABI decoder rejects, \<open>parseLog\<close> returns
  the event with \<open>Price\<close> nil, and \<open>handleEvent\<close> posts it with \<open>price_wei\<close> equal to
  the text \<open><nil>\<close>, which is no decimal numeral.
\<close>

theorem handleEvent_nil_price:
  "parseLog demo_gateway \<lparr> Address = 0xC0FFEE, Topics = [101, 7, 3, 0xABC], Data = [],
        BlockNumber = 12, LogTxHash = 0x77 \<rparr>
     = Some (zero_event \<lparr> Type := EventItemListed, TxHash := ''0x'', BlockNo := 12,
          ItemId := 7, TokenId := 3, Seller := ''0x'' \<rparr>)
   \<and> handleEvent ''http://backend'' (\<lambda>i. HttpStatus 200)
        (zero_event \<lparr> Type := EventItemListed, TxHash := ''0x'', BlockNo := 12,
          ItemId := 7, TokenId := 3, Seller := ''0x'' \<rparr>)
     = [HttpPost ''http://backend/api/v1/blockchain/item-listed''
         [(''chain_item_id'', JNumber 7), (''token_id'', JNumber 3), (''title'', JString ''''),
          (''price_wei'', JString ''<nil>''), (''explanation'', JString ''''),
          (''image_url'', JString ''''), (''uid'', JString ''''), (''category'', JString ''''),
          (''seller'', JString ''0x''), (''created_at'', JNumber 0),
          (''tx_hash'', JString ''0x'')]]
   \<and> \<not> is_decimal ''<nil>''"
  by (simp add: parseLog_def dispatch_def demo_gateway_def demo_eventID_def demo_unpack_def
      parseItemListed_def new_event_def zero_event_def Let_def topic_uint64_def
      handleEvent_def event_request_def notifyBackend_def notify_loop_2xx is_2xx_def
      bigIntString_def is_decimal_def is_digit_def)

section \<open>Decoder of the earlier revision\<close>

text \<open>
  \<open>parseLog\<close> of src/gateway/contract/gateway.go does not compare addresses: a log of
  another contract with a known signature is decoded. In that revision the address
  reaches the node only as the filter of the log query and of the subscription.
\<close>

lemma parseLog_gateway_go_foreign_address:
  "parseLog_gateway_go demo_gateway \<lparr> Address = 0xBAD, Topics = [104, 7, 9], Data = [],
        BlockNumber = 12, LogTxHash = 0x77 \<rparr>
     = Some (zero_event \<lparr> Type := EventItemCancelled, TxHash := ''0x'', BlockNo := 12,
          ItemId := 7, Seller := ''0x'' \<rparr>)"
  by (simp add: parseLog_gateway_go_def dispatch_def demo_gateway_def demo_eventID_def
      parseItemCancelled_def new_event_def topic_uint64_def)

end
